theory Spec2Isabelle
  imports Main
begin

section \<open>JavaScript values and strings\<close>

text \<open>
  The server is a Node.js program (\<^verbatim>\<open>src/server.js\<close> holds the single-file upload
  handler, \<^verbatim>\<open>src/unnamed/part_000\<close> the same server with the batch handler).
  JavaScript strings are modelled as \<^typ>\<open>string\<close>; a character outside ASCII is the
  sequence of its UTF-8 bytes.
  The JSON values that the handlers read and write are values of \<open>jsval\<close>; an object
  literal is the list of its properties in the order the source writes them.
\<close>

datatype jsval =
    JUndefined
  | JNull
  | JBool bool
  | JNum int
  | JStr string
  | JObj "(string \<times> jsval) list"

text \<open>JavaScript truthiness, as used by \<^verbatim>\<open>||\<close>, \<^verbatim>\<open>!\<close> and \<^verbatim>\<open>if\<close>.\<close>

fun truthy :: "jsval \<Rightarrow> bool" where
  "truthy JUndefined = False"
| "truthy JNull = False"
| "truthy (JBool b) = b"
| "truthy (JNum n) = (n \<noteq> 0)"
| "truthy (JStr s) = (s \<noteq> [])"
| "truthy (JObj kvs) = True"

text \<open>\<^verbatim>\<open>a || b\<close>\<close>

definition js_or :: "jsval \<Rightarrow> jsval \<Rightarrow> jsval" where
  "js_or a b = (if truthy a then a else b)"

text \<open>\<^verbatim>\<open>v?.k\<close>: the property of an object, undefined on everything else.\<close>

fun opt_prop :: "jsval \<Rightarrow> string \<Rightarrow> jsval" where
  "opt_prop (JObj kvs) k = (case map_of kvs k of None \<Rightarrow> JUndefined | Some v \<Rightarrow> v)"
| "opt_prop v k = JUndefined"

text \<open>
  \<^verbatim>\<open>process.env.X || d\<close> on a value that is a string or undefined: the default is
  taken when the value is undefined or the empty string.
\<close>

definition str_or :: "string option \<Rightarrow> string \<Rightarrow> string" where
  "str_or v d = (case v of None \<Rightarrow> d | Some s \<Rightarrow> if s = [] then d else s)"

text \<open>Decimal rendering of a non-negative integer, as string interpolation gives it.\<close>

definition digit_char :: "nat \<Rightarrow> char" where
  "digit_char d = ''0123456789'' ! d"

fun string_of_nat :: "nat \<Rightarrow> string" where
  "string_of_nat n =
     (if n < 10 then [digit_char n]
      else string_of_nat (n div 10) @ [digit_char (n mod 10)])"

declare string_of_nat.simps [simp del]

text \<open>
  \<^verbatim>\<open>(bytes / 1024 / 1024).toFixed(2)\<close>. Dividing a double by 1024 is exact, so the
  number formatted is exactly \<open>bytes / 2^20\<close>; \<^verbatim>\<open>toFixed(2)\<close> takes the integer \<open>n\<close>
  with \<open>n / 100\<close> nearest to it (the larger one on a tie), which is
  \<open>(100 * bytes + 2^19) div 2^20\<close>, and prints it with two decimals.
\<close>

definition two_digits :: "nat \<Rightarrow> string" where
  "two_digits k = [digit_char (k div 10), digit_char (k mod 10)]"

definition toFixed2_MB :: "nat \<Rightarrow> string" where
  "toFixed2_MB bytes =
     (let n = (100 * bytes + 524288) div 1048576
      in string_of_nat (n div 100) @ ''.'' @ two_digits (n mod 100))"

section \<open>The staging directory\<close>

text \<open>
  The file system is the list of the files it holds, each path with the metadata that
  \<^verbatim>\<open>fs.stat\<close> reports. In the handlers and in multer an operation on a path fails only
  when the path is absent (ENOENT); the sweep is given the other errors of its
  surroundings as well. Modification times are whole milliseconds.

  \<^verbatim>\<open>path.join(dir, name)\<close> is \<open>dir/name\<close> for a directory in normal form (such as
  \<^verbatim>\<open>uploads\<close>) and a plain entry name. For the default \<^verbatim>\<open>./uploads\<close> Node drops the
  leading \<^verbatim>\<open>./\<close>; the model keeps it, at the storage, in the handlers and in the sweep
  alike, since all of them join the same directory.
\<close>

record file_stat =
  stat_size :: nat
  mtimeMs :: int

type_synonym filesys = "(string \<times> file_stat) list"

datatype errno = ENOENT | EACCES | EPERM | EBUSY

definition path_join :: "string \<Rightarrow> string \<Rightarrow> string" where
  "path_join dir name = dir @ ''/'' @ name"

definition existsSync :: "filesys \<Rightarrow> string \<Rightarrow> bool" where
  "existsSync fs p = (map_of fs p \<noteq> None)"

definition fs_stat :: "filesys \<Rightarrow> string \<Rightarrow> errno + file_stat" where
  "fs_stat fs p = (case map_of fs p of None \<Rightarrow> Inl ENOENT | Some st \<Rightarrow> Inr st)"

text \<open>\<^verbatim>\<open>fs.unlink(p, cb)\<close>: the error handed to the callback, and the file system after.\<close>

definition fs_unlink :: "filesys \<Rightarrow> string \<Rightarrow> errno option \<times> filesys" where
  "fs_unlink fs p =
     (if existsSync fs p then (None, filter (\<lambda>e. fst e \<noteq> p) fs) else (Some ENOENT, fs))"

text \<open>
  \<^verbatim>\<open>fs.unlink(p, () => {})\<close> and \<^verbatim>\<open>fs.unlink(p, () => console.log(...))\<close>: the
  callback ignores its error argument, so only the file system after remains.
\<close>

definition unlink_discard :: "filesys \<Rightarrow> string \<Rightarrow> filesys" where
  "unlink_discard fs p = snd (fs_unlink fs p)"

text \<open>Writing a file creates it or replaces the one at that path.\<close>

definition fs_write :: "filesys \<Rightarrow> string \<Rightarrow> file_stat \<Rightarrow> filesys" where
  "fs_write fs p st = (p, st) # filter (\<lambda>e. fst e \<noteq> p) fs"

text \<open>\<^verbatim>\<open>fs.readdir(dir)\<close>: the names of the entries directly under \<open>dir\<close>.\<close>

definition entry_name :: "string \<Rightarrow> string \<Rightarrow> string option" where
  "entry_name dir p =
     (let k = length dir + 1; name = drop k p
      in if take k p = dir @ ''/'' \<and> name \<noteq> [] \<and> CHR ''/'' \<notin> set name
         then Some name else None)"

definition readdir :: "filesys \<Rightarrow> string \<Rightarrow> string list" where
  "readdir fs dir = List.map_filter (\<lambda>e. entry_name dir (fst e)) fs"

section \<open>Configuration and startup\<close>

text \<open>
  The environment variables the program reads. \<open>env_MAX_FILE_SIZE_MB\<close> is the number
  the variable denotes, and \<open>None\<close> when it is unset or empty.
\<close>

record process_env =
  env_PORT :: "string option"
  env_N8N_WEBHOOK_URL :: "string option"
  env_MAX_FILE_SIZE_MB :: "nat option"
  env_TEMP_DIR :: "string option"

record config =
  N8N_WEBHOOK_URL :: "string option"
  MAX_FILE_SIZE :: nat
  MAX_FILE_SIZE_MB :: nat
  TEMP_DIR :: string

datatype process = Exited nat | Listening config

text \<open>\<^verbatim>\<open>!!N8N_WEBHOOK_URL\<close>\<close>

definition url_truthy :: "string option \<Rightarrow> bool" where
  "url_truthy u = (case u of None \<Rightarrow> False | Some s \<Rightarrow> s \<noteq> [])"

definition load_config :: "process_env \<Rightarrow> config" where
  "load_config e =
     (let mb = (case env_MAX_FILE_SIZE_MB e of None \<Rightarrow> 80 | Some m \<Rightarrow> m)
      in \<lparr> N8N_WEBHOOK_URL = env_N8N_WEBHOOK_URL e,
           MAX_FILE_SIZE = mb * 1024 * 1024,
           MAX_FILE_SIZE_MB = mb,
           TEMP_DIR = str_or (env_TEMP_DIR e) ''./uploads'' \<rparr>)"

text \<open>Lines 18-26: the process exits with code 1 when the webhook URL is missing.\<close>

definition startup :: "process_env \<Rightarrow> process" where
  "startup e =
     (let cfg = load_config e
      in if \<not> url_truthy (N8N_WEBHOOK_URL cfg) then Exited 1 else Listening cfg)"

text \<open>
  \<^verbatim>\<open>GET /health\<close>. The timestamp and the uptime are read from the clock; they are
  arguments here.
\<close>

definition health :: "config \<Rightarrow> string \<Rightarrow> jsval \<Rightarrow> (string \<times> jsval) list" where
  "health cfg timestamp uptime =
     [(''status'', JStr ''ok''),
      (''timestamp'', JStr timestamp),
      (''uptime'', uptime),
      (''n8nConnected'', JBool (url_truthy (N8N_WEBHOOK_URL cfg)))]"

section \<open>Multer storage: staged file names\<close>

text \<open>The character class \<^verbatim>\<open>[a-zA-Z0-9.-]\<close>.\<close>

definition name_char :: "char \<Rightarrow> bool" where
  "name_char c =
     (c \<in> set (''abcdefghijklmnopqrstuvwxyz'' @ ''ABCDEFGHIJKLMNOPQRSTUVWXYZ''
               @ ''0123456789'' @ ''.-''))"

text \<open>
  \<^verbatim>\<open>.replace(/[^a-zA-Z0-9.-]/g, '_')\<close>. A character outside ASCII gives one underscore
  for each of its units; the next step makes them one.
\<close>

definition replace_other :: "string \<Rightarrow> string" where
  "replace_other s = map (\<lambda>c. if name_char c then c else CHR ''_'') s"

text \<open>\<^verbatim>\<open>.replace(/_+/g, '_')\<close>: every maximal run of underscores becomes one.\<close>

fun collapse_underscores :: "string \<Rightarrow> string" where
  "collapse_underscores (a # b # cs) =
     (if a = CHR ''_'' \<and> b = CHR ''_'' then collapse_underscores (b # cs)
      else a # collapse_underscores (b # cs))"
| "collapse_underscores cs = cs"

definition sanitized :: "string \<Rightarrow> string" where
  "sanitized originalname = collapse_underscores (replace_other originalname)"

text \<open>
  The \<^verbatim>\<open>filename\<close> callback of the disk storage. \<open>timestamp\<close> is \<^verbatim>\<open>Date.now()\<close>
  and \<open>random\<close> the token \<^verbatim>\<open>Math.random().toString(36).substring(7)\<close>.
\<close>

definition storage_filename :: "nat \<Rightarrow> string \<Rightarrow> string \<Rightarrow> string" where
  "storage_filename timestamp random originalname =
     string_of_nat timestamp @ ''-'' @ random @ ''-'' @ sanitized originalname"

text \<open>
  The reading of the specification's sentence: characters outside alphanumerics, dot
  and hyphen are stripped, that is removed.
\<close>

definition spec_stripped :: "string \<Rightarrow> string" where
  "spec_stripped originalname = filter name_char originalname"

text \<open>Two underscores in a row somewhere in a name.\<close>

fun double_underscore :: "string \<Rightarrow> bool" where
  "double_underscore (a # b # cs) =
     ((a = CHR ''_'' \<and> b = CHR ''_'') \<or> double_underscore (b # cs))"
| "double_underscore cs = False"

section \<open>Multer: receiving the uploaded files\<close>

text \<open>
  Multer is a library; the repository configures it (lines 35-58) and mounts
  \<^verbatim>\<open>upload.array(...)\<close> in front of the handler. What follows is the library's
  contract, from its documentation and its \<^verbatim>\<open>make-middleware\<close>:
  \<^item> \<^verbatim>\<open>array(field, maxCount)\<close> accepts file parts named \<open>field\<close>, at most
    \<open>maxCount\<close> of them, and stores the files in \<^verbatim>\<open>req.files\<close>; it never sets
    \<^verbatim>\<open>req.file\<close> (only \<^verbatim>\<open>single\<close> does). Any other file part is refused with a
    \<^verbatim>\<open>MulterError\<close> of code \<^verbatim>\<open>LIMIT_UNEXPECTED_FILE\<close>.
  \<^item> The \<^verbatim>\<open>fileFilter\<close> of the configuration runs before the storage; an error it
    hands to its callback aborts the request.
  \<^item> The disk storage writes the part under \<^verbatim>\<open>path.join(destination, filename)\<close>.
    A part longer than \<^verbatim>\<open>limits.fileSize\<close> is cut there and aborts the request with a
    \<^verbatim>\<open>MulterError\<close> of code \<^verbatim>\<open>LIMIT_FILE_SIZE\<close> and message \<^verbatim>\<open>File too large\<close>.
  \<^item> An aborted request removes the files it has written and passes the error to
    Express, which runs the error-handling middleware instead of the handler.
  \<^item> \<open>part_mimetype\<close> is the content type as multer reports it in \<^verbatim>\<open>file.mimetype\<close>.
\<close>

record raw_part =
  part_fieldname :: string
  part_originalname :: string
  part_mimetype :: string
  part_size :: nat

text \<open>
  A value of \<^verbatim>\<open>req.body\<close>, as multer builds it from the text fields: a string for a
  field sent once, an array for a field sent several times, an object for fields with
  bracketed names.
\<close>

datatype field_value = Text string | Array "string list" | Object "(string \<times> string) list"

record raw_request =
  raw_files :: "raw_part list"
  raw_fields :: "string \<Rightarrow> field_value option"

text \<open>Multer's file object, an element of \<^verbatim>\<open>req.files\<close>; \<open>file_size\<close> is its \<^verbatim>\<open>size\<close>.\<close>

record uploaded_file =
  fieldname :: string
  originalname :: string
  mimetype :: string
  destination :: string
  filename :: string
  path :: string
  file_size :: nat

text \<open>An error passed to Express: a \<^verbatim>\<open>MulterError\<close> with its code and message, or a plain \<^verbatim>\<open>Error\<close>.\<close>

datatype upload_error = MulterError string string | Error string

text \<open>
  What the storage reads from its surroundings for one part: \<^verbatim>\<open>Date.now()\<close>, the
  random token, and the modification time the written file gets.
\<close>

record draw =
  draw_now :: nat
  draw_random :: string
  draw_mtime :: int

text \<open>Lines 52-57.\<close>

definition fileFilter :: "raw_part \<Rightarrow> upload_error option" where
  "fileFilter file =
     (if part_mimetype file \<noteq> ''application/pdf'' then Some (Error ''Solo PDFs permitidos'')
      else None)"

definition remove_uploaded :: "filesys \<Rightarrow> uploaded_file list \<Rightarrow> filesys" where
  "remove_uploaded fs files = fold (\<lambda>f fs'. unlink_discard fs' (path f)) files fs"

text \<open>Lines 36-46 and 51: destination, file name and size limit of the storage.\<close>

definition stage_part :: "config \<Rightarrow> draw \<Rightarrow> raw_part \<Rightarrow> uploaded_file" where
  "stage_part cfg d p =
     (let name = storage_filename (draw_now d) (draw_random d) (part_originalname p)
      in \<lparr> fieldname = part_fieldname p,
           originalname = part_originalname p,
           mimetype = part_mimetype p,
           destination = TEMP_DIR cfg,
           filename = name,
           path = path_join (TEMP_DIR cfg) name,
           file_size = min (part_size p) (MAX_FILE_SIZE cfg) \<rparr>)"

text \<open>
  The parts are taken in order; \<open>left\<close> is the number of files still allowed
  (\<open>None\<close> when \<^verbatim>\<open>array\<close> got no \<open>maxCount\<close>), \<open>i\<close> the position of the next part and
  \<open>staged\<close> the files written so far.
\<close>

fun multer_files ::
  "config \<Rightarrow> string \<Rightarrow> nat option \<Rightarrow> (nat \<Rightarrow> draw) \<Rightarrow> nat \<Rightarrow> raw_part list
   \<Rightarrow> uploaded_file list \<Rightarrow> filesys \<Rightarrow> (upload_error \<times> filesys) + (uploaded_file list \<times> filesys)"
where
  "multer_files cfg field left draws i [] staged fs = Inr (staged, fs)"
| "multer_files cfg field left draws i (p # ps) staged fs =
     (if part_fieldname p \<noteq> field \<or> left = Some 0
      then Inl (MulterError ''LIMIT_UNEXPECTED_FILE'' ''Unexpected field'',
                remove_uploaded fs staged)
      else case fileFilter p of
        Some err \<Rightarrow> Inl (err, remove_uploaded fs staged)
      | None \<Rightarrow>
          let file = stage_part cfg (draws i) p;
              fs' = fs_write fs (path file)
                      \<lparr> stat_size = file_size file, mtimeMs = draw_mtime (draws i) \<rparr>
          in if part_size p > MAX_FILE_SIZE cfg
             then Inl (MulterError ''LIMIT_FILE_SIZE'' ''File too large'',
                       remove_uploaded fs' (staged @ [file]))
             else multer_files cfg field (map_option (\<lambda>n. n - 1) left) draws (Suc i) ps
                    (staged @ [file]) fs')"

definition multer_array ::
  "config \<Rightarrow> string \<Rightarrow> nat option \<Rightarrow> (nat \<Rightarrow> draw) \<Rightarrow> raw_part list \<Rightarrow> filesys
   \<Rightarrow> (upload_error \<times> filesys) + (uploaded_file list \<times> filesys)"
where
  "multer_array cfg field maxCount draws parts fs =
     multer_files cfg field maxCount draws 0 parts [] fs"

section \<open>The relay and the handlers\<close>

text \<open>
  A part of the outgoing form: a file part (name, path of the stream, file name,
  content type) or a text field.
\<close>

datatype form_part = FilePart string string string string | Field string string

text \<open>\<^verbatim>\<open>req.body.x || d\<close>: an array and an object are truthy.\<close>

definition body_or :: "field_value option \<Rightarrow> string \<Rightarrow> field_value" where
  "body_or v d =
     (case v of
        None \<Rightarrow> Text d
      | Some (Text s) \<Rightarrow> if s = [] then Text d else Text s
      | Some (Array xs) \<Rightarrow> Array xs
      | Some (Object kvs) \<Rightarrow> Object kvs)"

text \<open>
  \<^verbatim>\<open>formData.append(name, value)\<close> of the form-data library: a string is appended as a
  text field; an array makes it emit the error \<^verbatim>\<open>Arrays are not supported.\<close>, which
  is thrown for want of a listener; an object is taken for a stream and the wrapper
  throws a TypeError. \<open>Inl\<close> is the message of the error thrown.
\<close>

definition append_value :: "form_part list \<Rightarrow> string \<Rightarrow> field_value \<Rightarrow> string + form_part list" where
  "append_value formData name v =
     (case v of
        Text s \<Rightarrow> Inr (formData @ [Field name s])
      | Array xs \<Rightarrow> Inl ''Arrays are not supported.''
      | Object kvs \<Rightarrow> Inl ''source.on is not a function'')"

text \<open>A run of \<^verbatim>\<open>formData.append\<close> statements: the first throw ends it.\<close>

fun append_all :: "form_part list \<Rightarrow> (string \<times> field_value) list \<Rightarrow> string + form_part list" where
  "append_all formData [] = Inr formData"
| "append_all formData ((name, v) # rest) =
     (case append_value formData name v of
        Inl message \<Rightarrow> Inl message
      | Inr formData' \<Rightarrow> append_all formData' rest)"

text \<open>The call \<^verbatim>\<open>axios.post(N8N_WEBHOOK_URL, formData, {..., timeout})\<close>.\<close>

record relay_request =
  rq_url :: "string option"
  rq_form :: "form_part list"
  rq_timeout :: nat

text \<open>
  What goes over the network: a request to a URL, and the answer to it, which is a
  status (three digits on the wire; any number here), a \<^verbatim>\<open>Location\<close> header if there
  is one (resolved against the URL of the request) and a body, or no answer at all
  (connection refused, timeout, DNS failure) with the message of the error.
\<close>

datatype http_method = GET | POST

record wire_request =
  w_url :: "string option"
  w_method :: http_method
  w_form :: "form_part list"

datatype wire_answer = Answer nat "string option" jsval | NoAnswer string

text \<open>What \<^verbatim>\<open>axios.post\<close> gives the handler: it resolves with a status and a body, or rejects
  with an error, of which the message is kept.\<close>

datatype relay_outcome = Responded nat jsval | Failed string

text \<open>
  The call sets no \<^verbatim>\<open>maxRedirects\<close>, so axios sends the request through the
  follow-redirects library: an answer with a status from 300 to 399 and a
  \<^verbatim>\<open>Location\<close> header is not handed back but followed, as a GET without body after
  301, 302 and 303, and as the same request otherwise; one redirect more than the
  limit allows is an error. \<^verbatim>\<open>validateStatus: () => true\<close> makes every status that is
  handed back a resolved promise.
\<close>

definition redirected :: "nat \<Rightarrow> string \<Rightarrow> wire_request \<Rightarrow> wire_request" where
  "redirected st location rq =
     (if ((st = 301 \<or> st = 302) \<and> w_method rq = POST) \<or> (st = 303 \<and> w_method rq \<noteq> GET)
      then \<lparr> w_url = Some location, w_method = GET, w_form = [] \<rparr>
      else rq \<lparr> w_url := Some location \<rparr>)"

fun follow_redirects :: "(wire_request \<Rightarrow> wire_answer) \<Rightarrow> nat \<Rightarrow> wire_request \<Rightarrow> relay_outcome" where
  "follow_redirects net 0 rq =
     (case net rq of
        NoAnswer message \<Rightarrow> Failed message
      | Answer st None d \<Rightarrow> Responded st d
      | Answer st (Some location) d \<Rightarrow>
          if st < 300 \<or> 400 \<le> st then Responded st d
          else Failed ''Maximum number of redirects exceeded'')"
| "follow_redirects net (Suc left) rq =
     (case net rq of
        NoAnswer message \<Rightarrow> Failed message
      | Answer st None d \<Rightarrow> Responded st d
      | Answer st (Some location) d \<Rightarrow>
          if st < 300 \<or> 400 \<le> st then Responded st d
          else follow_redirects net left (redirected st location rq))"

text \<open>
  What a handler reads from its surroundings: the network and the redirect limit of
  the installed axios, \<^verbatim>\<open>Date.now()\<close> where the default batch id and the fallback job
  id are built, \<^verbatim>\<open>new Date().toISOString()\<close>, and the string
  \<^verbatim>\<open>((Date.now() - startTime) / 1000).toFixed(2)\<close>, a floating-point rendering that
  is left abstract.
\<close>

record handler_env =
  downstream :: "wire_request \<Rightarrow> wire_answer"
  maxRedirects :: nat
  now_batch :: nat
  now_job :: nat
  upload_timestamp :: string
  processingTime :: string

text \<open>The paths of the streams of a form, which \<^verbatim>\<open>fs.createReadStream\<close> opens when the
  body is sent.\<close>

fun file_part_paths :: "form_part list \<Rightarrow> string list" where
  "file_part_paths [] = []"
| "file_part_paths (FilePart name p fname ctype # parts) = p # file_part_paths parts"
| "file_part_paths (Field name v # parts) = file_part_paths parts"

text \<open>
  The awaited \<^verbatim>\<open>axios.post\<close>. A staged file that is gone makes its stream, and with it
  the body, fail with ENOENT, and the promise is rejected with that error; otherwise the
  outcome is that of the request sent to the URL.
\<close>

definition axios_post :: "handler_env \<Rightarrow> filesys \<Rightarrow> relay_request \<Rightarrow> relay_outcome" where
  "axios_post env fs rq =
     (case filter (\<lambda>p. \<not> existsSync fs p) (file_part_paths (rq_form rq)) of
        p # ps \<Rightarrow> Failed (''ENOENT: no such file or directory, open '' @ [CHR 0x27] @ p @ [CHR 0x27])
      | [] \<Rightarrow>
          follow_redirects (downstream env) (maxRedirects env)
            \<lparr> w_url = rq_url rq, w_method = POST, w_form = rq_form rq \<rparr>)"

record request =
  req_file :: "uploaded_file option"
  req_files :: "uploaded_file list"
  req_body :: "string \<Rightarrow> field_value option"

record http_response =
  status :: nat
  body :: "(string \<times> jsval) list"

text \<open>What running a route leaves: the response, the file system, the calls of
  \<^verbatim>\<open>axios.post\<close> made.\<close>

record outcome =
  res :: http_response
  fs_after :: filesys
  relay_calls :: "relay_request list"

text \<open>
  The single-file handler, \<^verbatim>\<open>src/server.js\<close> lines 110-191. In its \<^verbatim>\<open>try\<close> block
  the \<^verbatim>\<open>formData.append\<close> of lines 137 and 138 throws on a value that is not a string,
  and the awaited \<^verbatim>\<open>axios.post\<close> throws when its promise is rejected; both land in the
  \<^verbatim>\<open>catch\<close> block of lines 178-190.
\<close>

definition upload_form :: "request \<Rightarrow> uploaded_file \<Rightarrow> string + form_part list" where
  "upload_form req file =
     append_all [FilePart ''file'' (path file) (originalname file) ''application/pdf'']
       [(''process_type'', body_or (req_body req ''process_type'') ''GG''),
        (''client_id'', body_or (req_body req ''client_id'') ''INTELEC_SL''),
        (''uploaded_by'', Text ''backend-api''),
        (''file_size_mb'', Text (toFixed2_MB (file_size file)))]"

definition upload_relay :: "config \<Rightarrow> form_part list \<Rightarrow> relay_request" where
  "upload_relay cfg formData =
     \<lparr> rq_url = N8N_WEBHOOK_URL cfg, rq_form = formData, rq_timeout = 120000 \<rparr>"

definition upload_catch :: "filesys \<Rightarrow> string \<Rightarrow> string \<Rightarrow> relay_request list \<Rightarrow> outcome" where
  "upload_catch fs filePath message calls =
     \<lparr> res = \<lparr> status = 500,
               body = [(''success'', JBool False), (''error'', JStr message),
                       (''hint'', JStr ''Check n8n is available and URL is correct'')] \<rparr>,
       fs_after = (if filePath \<noteq> [] \<and> existsSync fs filePath
                   then unlink_discard fs filePath else fs),
       relay_calls = calls \<rparr>"

definition upload_handler :: "config \<Rightarrow> handler_env \<Rightarrow> request \<Rightarrow> filesys \<Rightarrow> outcome" where
  "upload_handler cfg env req fs =
     (case req_file req of
        None \<Rightarrow>
          \<lparr> res = \<lparr> status = 400,
                    body = [(''success'', JBool False), (''error'', JStr ''No file found'')] \<rparr>,
            fs_after = fs, relay_calls = [] \<rparr>
      | Some file \<Rightarrow>
          let filePath = path file;
              fileSize = file_size file;
              fileName = originalname file;
              fileSizeMB = toFixed2_MB fileSize
          in case upload_form req file of
               Inl message \<Rightarrow> upload_catch fs filePath message []
             | Inr formData \<Rightarrow>
                 let rq = upload_relay cfg formData
                 in case axios_post env fs rq of
                      Failed message \<Rightarrow> upload_catch fs filePath message [rq]
                    | Responded st data \<Rightarrow>
                        let fs' = unlink_discard fs filePath
                        in if 200 \<le> st \<and> st < 300
                           then \<lparr> res = \<lparr> status = 200,
                                          body = [(''success'', JBool True),
                                                  (''message'', JStr (''Archivo proces'' @ [CHR 0xC3, CHR 0xA1] @ ''ndose'')),
                                                  (''fileName'', JStr fileName),
                                                  (''fileSize'', JNum (int fileSize)),
                                                  (''fileSizeMB'', JStr fileSizeMB),
                                                  (''processingTime'', JStr (processingTime env @ ''s'')),
                                                  (''jobId'', js_or (opt_prop data ''jobId'')
                                                                (JStr (''job_'' @ string_of_nat (now_job env))))] \<rparr>,
                                  fs_after = fs', relay_calls = [rq] \<rparr>
                           else \<lparr> res = \<lparr> status = st,
                                          body = [(''success'', JBool False), (''error'', JStr ''N8N error''),
                                                  (''status'', JNum (int st))] \<rparr>,
                                  fs_after = fs', relay_calls = [rq] \<rparr>)"

text \<open>
  The batch handler, \<^verbatim>\<open>src/unnamed/part_000\<close> lines 111-206. The loop of lines 137-145
  appends one file part per staged file, named by its position from 1. In the
  \<^verbatim>\<open>try\<close> block the \<^verbatim>\<open>formData.append\<close> of lines 148-150 throws on a value that is
  not a string, and the awaited \<^verbatim>\<open>axios.post\<close> throws when its promise is rejected;
  both land in the \<^verbatim>\<open>catch\<close> block of lines 192-205.
\<close>

fun append_files :: "nat \<Rightarrow> uploaded_file list \<Rightarrow> form_part list" where
  "append_files i [] = []"
| "append_files i (file # files) =
     FilePart (''file_'' @ string_of_nat (i + 1)) (path file) (originalname file) ''application/pdf''
       # append_files (Suc i) files"

definition batch_form :: "handler_env \<Rightarrow> request \<Rightarrow> string + form_part list" where
  "batch_form env req =
     append_all (append_files 0 (req_files req))
       [(''batch_id'',
           body_or (req_body req ''batch_id'') (''batch_'' @ string_of_nat (now_batch env))),
        (''process_type'', body_or (req_body req ''process_type'') ''GG''),
        (''client_id'', body_or (req_body req ''client_id'') ''INTELEC_SL''),
        (''total_files'', Text (string_of_nat (length (req_files req)))),
        (''uploaded_by'', Text ''backend-api-batch''),
        (''upload_timestamp'', Text (upload_timestamp env))]"

text \<open>Lines 171-173 unlink every path, lines 195-199 every path that exists.\<close>

definition unlink_all :: "filesys \<Rightarrow> string list \<Rightarrow> filesys" where
  "unlink_all fs filePaths = fold (\<lambda>filePath fs'. unlink_discard fs' filePath) filePaths fs"

definition unlink_existing :: "filesys \<Rightarrow> string list \<Rightarrow> filesys" where
  "unlink_existing fs filePaths =
     fold (\<lambda>filePath fs'. if existsSync fs' filePath then unlink_discard fs' filePath else fs')
       filePaths fs"

definition batch_relay :: "config \<Rightarrow> form_part list \<Rightarrow> relay_request" where
  "batch_relay cfg formData =
     \<lparr> rq_url = N8N_WEBHOOK_URL cfg, rq_form = formData, rq_timeout = 600000 \<rparr>"

definition batch_catch :: "filesys \<Rightarrow> string list \<Rightarrow> string \<Rightarrow> relay_request list \<Rightarrow> outcome" where
  "batch_catch fs filePaths message calls =
     \<lparr> res = \<lparr> status = 500,
               body = [(''success'', JBool False), (''error'', JStr message)] \<rparr>,
       fs_after = unlink_existing fs filePaths, relay_calls = calls \<rparr>"

text \<open>The batch id of the answer is the value of line 123 (a string whenever line 148 has
  not thrown).\<close>

definition batch_id_text :: "field_value \<Rightarrow> string" where
  "batch_id_text v = (case v of Text s \<Rightarrow> s | Array xs \<Rightarrow> [] | Object kvs \<Rightarrow> [])"

definition upload_batch_handler :: "config \<Rightarrow> handler_env \<Rightarrow> request \<Rightarrow> filesys \<Rightarrow> outcome" where
  "upload_batch_handler cfg env req fs =
     (if req_files req = []
      then \<lparr> res = \<lparr> status = 400,
                     body = [(''success'', JBool False), (''error'', JStr ''No files found'')] \<rparr>,
             fs_after = fs, relay_calls = [] \<rparr>
      else
        let batchId = body_or (req_body req ''batch_id'') (''batch_'' @ string_of_nat (now_batch env));
            totalFiles = length (req_files req);
            filePaths = map path (req_files req)
        in case batch_form env req of
             Inl message \<Rightarrow> batch_catch fs filePaths message []
           | Inr formData \<Rightarrow>
               let rq = batch_relay cfg formData
               in case axios_post env fs rq of
                    Failed message \<Rightarrow> batch_catch fs filePaths message [rq]
                  | Responded st data \<Rightarrow>
                      let fs' = unlink_all fs filePaths
                      in if 200 \<le> st \<and> st < 300
                         then \<lparr> res = \<lparr> status = 200,
                                        body = [(''success'', JBool True),
                                                (''message'', JStr ([CHR 0xE2, CHR 0x9C, CHR 0x85] @ '' ''
                                                                    @ string_of_nat totalFiles
                                                                    @ '' archivo(s) enviado(s) a N8N en batch'')),
                                                (''batchId'', JStr (batch_id_text batchId)),
                                                (''totalFiles'', JNum (int totalFiles)),
                                                (''processingTime'', JStr (processingTime env @ ''s'')),
                                                (''n8nResponse'', data)] \<rparr>,
                                fs_after = fs', relay_calls = [rq] \<rparr>
                         else \<lparr> res = \<lparr> status = st,
                                        body = [(''success'', JBool False), (''error'', JStr ''Error en N8N''),
                                                (''details'', data)] \<rparr>,
                                fs_after = fs', relay_calls = [rq] \<rparr>)"

text \<open>The error-handling middleware, lines 213-224 (228-239 in the batch server).\<close>

definition error_handler :: "config \<Rightarrow> upload_error \<Rightarrow> http_response" where
  "error_handler cfg err =
     (case err of
        MulterError code message \<Rightarrow>
          if code = ''FILE_TOO_LARGE''
          then \<lparr> status = 413,
                 body = [(''success'', JBool False), (''error'', JStr ''File too large''),
                         (''maxSize'', JStr (string_of_nat (MAX_FILE_SIZE_MB cfg) @ ''MB''))] \<rparr>
          else \<lparr> status = 500,
                 body = [(''success'', JBool False), (''error'', JStr message)] \<rparr>
      | Error message \<Rightarrow>
          \<lparr> status = 500, body = [(''success'', JBool False), (''error'', JStr message)] \<rparr>)"

text \<open>
  A route is the multer middleware, then the handler, or the error middleware when
  multer aborts. \<^verbatim>\<open>src/server.js\<close> line 110 mounts \<^verbatim>\<open>upload.array('file')\<close>;
  \<^verbatim>\<open>src/unnamed/part_000\<close> line 111 mounts \<^verbatim>\<open>upload.array('files', 10)\<close>.
\<close>

definition route ::
  "string \<Rightarrow> nat option \<Rightarrow> (config \<Rightarrow> handler_env \<Rightarrow> request \<Rightarrow> filesys \<Rightarrow> outcome)
   \<Rightarrow> config \<Rightarrow> handler_env \<Rightarrow> (nat \<Rightarrow> draw) \<Rightarrow> raw_request \<Rightarrow> filesys \<Rightarrow> outcome"
where
  "route field maxCount handler cfg env draws raw fs =
     (case multer_array cfg field maxCount draws (raw_files raw) fs of
        Inl (err, fs') \<Rightarrow> \<lparr> res = error_handler cfg err, fs_after = fs', relay_calls = [] \<rparr>
      | Inr (files, fs') \<Rightarrow>
          handler cfg env \<lparr> req_file = None, req_files = files, req_body = raw_fields raw \<rparr> fs')"

definition upload_route ::
  "config \<Rightarrow> handler_env \<Rightarrow> (nat \<Rightarrow> draw) \<Rightarrow> raw_request \<Rightarrow> filesys \<Rightarrow> outcome" where
  "upload_route = route ''file'' None upload_handler"

definition upload_batch_route ::
  "config \<Rightarrow> handler_env \<Rightarrow> (nat \<Rightarrow> draw) \<Rightarrow> raw_request \<Rightarrow> filesys \<Rightarrow> outcome" where
  "upload_batch_route = route ''files'' (Some 10) upload_batch_handler"

section \<open>The cleanup sweep\<close>

text \<open>
  Lines 194-210. \<open>sweep_callback\<close> is the callback of \<^verbatim>\<open>fs.readdir\<close>: it gets the error
  or the listing, and for each name the callback of \<^verbatim>\<open>fs.stat\<close> returns on an error and
  unlinks the file when it is older than \<open>maxAge\<close>; the callback of \<^verbatim>\<open>fs.unlink\<close> logs
  a line whether the deletion failed or not. The listing is an argument: a name in it
  may be gone by the time it is looked at.

  The sweep runs beside the handlers and on a directory it does not own, so it is given
  the faults of its surroundings: for a path, the error that \<^verbatim>\<open>fs.stat\<close> or
  \<^verbatim>\<open>fs.unlink\<close> meets there for another reason than absence (a permission, a lock).
\<close>

record faults =
  stat_fault :: "string \<Rightarrow> errno option"
  unlink_fault :: "string \<Rightarrow> errno option"

definition no_faults :: faults where
  "no_faults = \<lparr> stat_fault = (\<lambda>p. None), unlink_fault = (\<lambda>p. None) \<rparr>"

definition sweep_stat :: "faults \<Rightarrow> filesys \<Rightarrow> string \<Rightarrow> errno + file_stat" where
  "sweep_stat flt fs p = (case stat_fault flt p of Some e \<Rightarrow> Inl e | None \<Rightarrow> fs_stat fs p)"

definition sweep_unlink :: "faults \<Rightarrow> filesys \<Rightarrow> string \<Rightarrow> errno option \<times> filesys" where
  "sweep_unlink flt fs p =
     (case unlink_fault flt p of Some e \<Rightarrow> (Some e, fs) | None \<Rightarrow> fs_unlink fs p)"

definition maxAge :: int where
  "maxAge = 30 * 60 * 1000"

definition sweep_file :: "config \<Rightarrow> int \<Rightarrow> faults \<Rightarrow> string \<Rightarrow> filesys \<Rightarrow> filesys" where
  "sweep_file cfg now flt file fs =
     (let filePath = path_join (TEMP_DIR cfg) file
      in case sweep_stat flt fs filePath of
           Inl err \<Rightarrow> fs
         | Inr stats \<Rightarrow>
             if now - mtimeMs stats > maxAge then snd (sweep_unlink flt fs filePath) else fs)"

definition sweep_callback ::
  "config \<Rightarrow> int \<Rightarrow> faults \<Rightarrow> errno option \<Rightarrow> string list \<Rightarrow> filesys \<Rightarrow> filesys" where
  "sweep_callback cfg now flt err files fs =
     (case err of Some e \<Rightarrow> fs | None \<Rightarrow> fold (sweep_file cfg now flt) files fs)"

definition sweep :: "config \<Rightarrow> int \<Rightarrow> faults \<Rightarrow> filesys \<Rightarrow> filesys" where
  "sweep cfg now flt fs = sweep_callback cfg now flt None (readdir fs (TEMP_DIR cfg)) fs"

section \<open>Observations and sample inputs\<close>

text \<open>The names of the file parts of a form, and the values of its text fields of a given name.\<close>

fun file_part_names :: "form_part list \<Rightarrow> string list" where
  "file_part_names [] = []"
| "file_part_names (FilePart name p fname ctype # parts) = name # file_part_names parts"
| "file_part_names (Field name v # parts) = file_part_names parts"

fun field_values :: "string \<Rightarrow> form_part list \<Rightarrow> string list" where
  "field_values k [] = []"
| "field_values k (FilePart name p fname ctype # parts) = field_values k parts"
| "field_values k (Field name v # parts) =
     (if name = k then v # field_values k parts else field_values k parts)"

text \<open>A value of \<^verbatim>\<open>req.body\<close> that is absent or a string.\<close>

fun plain_text :: "field_value option \<Rightarrow> bool" where
  "plain_text None = True"
| "plain_text (Some (Text s)) = True"
| "plain_text (Some (Array xs)) = False"
| "plain_text (Some (Object kvs)) = False"

text \<open>The request that \<^verbatim>\<open>axios.post\<close> sends first, and the answers that the first
  requests of the relay calls of a run get.\<close>

definition first_request :: "relay_request \<Rightarrow> wire_request" where
  "first_request rq = \<lparr> w_url = rq_url rq, w_method = POST, w_form = rq_form rq \<rparr>"

definition first_answers :: "handler_env \<Rightarrow> outcome \<Rightarrow> wire_answer list" where
  "first_answers env out = map (downstream env \<circ> first_request) (relay_calls out)"

text \<open>
  A configuration with the default limit of 80 MiB and \<^verbatim>\<open>TEMP_DIR=uploads\<close>, a
  network on which every request gets the given outcome (an answer without
  \<^verbatim>\<open>Location\<close> header, or none), and the values the storage reads for the \<open>i\<close>-th part.
\<close>

definition sample_cfg :: config where
  "sample_cfg =
     \<lparr> N8N_WEBHOOK_URL = Some ''http://n8n.local/webhook/licitaciones'',
       MAX_FILE_SIZE = 83886080, MAX_FILE_SIZE_MB = 80, TEMP_DIR = ''uploads'' \<rparr>"

definition sample_env :: "relay_outcome \<Rightarrow> handler_env" where
  "sample_env answer =
     \<lparr> downstream = (\<lambda>rq. case answer of Responded st d \<Rightarrow> Answer st None d
                                       | Failed message \<Rightarrow> NoAnswer message),
       maxRedirects = 5, now_batch = 1700000000500, now_job = 1700000000900,
       upload_timestamp = ''2023-11-14T22:13:20.500Z'', processingTime = ''0.90'' \<rparr>"

text \<open>A network on which the webhook answers 302 with a \<^verbatim>\<open>Location\<close>, and the place it
  names answers 200.\<close>

definition moved_env :: handler_env where
  "moved_env =
     \<lparr> downstream = (\<lambda>rq. if w_url rq = Some ''http://n8n.local/webhook/licitaciones''
                           then Answer 302 (Some ''http://n8n.local/login'') JNull
                           else Answer 200 None (JStr ''<html>login</html>'')),
       maxRedirects = 5, now_batch = 1700000000500, now_job = 1700000000900,
       upload_timestamp = ''2023-11-14T22:13:20.500Z'', processingTime = ''0.90'' \<rparr>"

definition sample_draws :: "nat \<Rightarrow> draw" where
  "sample_draws i =
     \<lparr> draw_now = 1700000000000 + i, draw_random = ''o82mvyr'', draw_mtime = 1700000000000 \<rparr>"

definition sample_part :: "string \<Rightarrow> string \<Rightarrow> string \<Rightarrow> nat \<Rightarrow> raw_part" where
  "sample_part field name mime bytes =
     \<lparr> part_fieldname = field, part_originalname = name, part_mimetype = mime,
       part_size = bytes \<rparr>"

definition sample_file :: "string \<Rightarrow> nat \<Rightarrow> uploaded_file" where
  "sample_file name bytes =
     stage_part sample_cfg (sample_draws 0) (sample_part ''files'' name ''application/pdf'' bytes)"

text \<open>Faults for a sweep: \<^verbatim>\<open>uploads/c\<close> cannot be deleted, \<^verbatim>\<open>uploads/d\<close> cannot be
  looked at.\<close>

definition sample_faults :: faults where
  "sample_faults =
     \<lparr> stat_fault = (\<lambda>p. if p = ''uploads/d'' then Some EACCES else None),
       unlink_fault = (\<lambda>p. if p = ''uploads/c'' then Some EPERM else None) \<rparr>"

definition no_fields :: "string \<Rightarrow> field_value option" where
  "no_fields k = None"

text \<open>The fields of a request that sends \<^verbatim>\<open>client_id\<close> twice.\<close>

definition client_id_twice :: "string \<Rightarrow> field_value option" where
  "client_id_twice k = (if k = ''client_id'' then Some (Array [''INTELEC_SL'', ''OTRO'']) else None)"

section \<open>File-system facts\<close>

lemma map_of_filter_fst:
  "map_of (filter (\<lambda>e. fst e \<noteq> p) fs) q = (if q = p then None else map_of fs q)"
  by (induction fs) auto

lemma map_of_unlink:
  "map_of (unlink_discard fs p) q = (if q = p then None else map_of fs q)"
  by (auto simp: unlink_discard_def fs_unlink_def existsSync_def map_of_filter_fst)

lemma unlink_absent: "\<not> existsSync fs p \<Longrightarrow> unlink_discard fs p = fs"
  by (simp add: unlink_discard_def fs_unlink_def)

lemma unlink_twice: "unlink_discard (unlink_discard fs p) p = unlink_discard fs p"
  by (rule unlink_absent) (simp add: existsSync_def map_of_unlink)

lemma map_of_unlink_all:
  "map_of (unlink_all fs ps) q = (if q \<in> set ps then None else map_of fs q)"
  unfolding unlink_all_def by (induction ps arbitrary: fs) (auto simp: map_of_unlink)

lemma map_of_unlink_existing:
  "map_of (unlink_existing fs ps) q = (if q \<in> set ps then None else map_of fs q)"
  unfolding unlink_existing_def
  by (induction ps arbitrary: fs) (auto simp: map_of_unlink existsSync_def)

text \<open>
  C9. Deleting a path that is absent hands ENOENT to the callback, which drops it, and
  leaves the file system as it was; deleting twice is the same as deleting once; and a
  deletion, of a present or an absent path, leaves every other path as it was.
\<close>

theorem unlink_absent_is_noop:
  "(\<not> existsSync fs p \<longrightarrow> fs_unlink fs p = (Some ENOENT, fs) \<and> unlink_discard fs p = fs)
   \<and> unlink_discard (unlink_discard fs p) p = unlink_discard fs p
   \<and> (q \<noteq> p \<longrightarrow> fs_stat (unlink_discard fs p) q = fs_stat fs q)"
proof -
  have a: "\<not> existsSync fs p \<longrightarrow> fs_unlink fs p = (Some ENOENT, fs) \<and> unlink_discard fs p = fs"
    by (simp add: unlink_discard_def fs_unlink_def)
  have b: "q \<noteq> p \<longrightarrow> fs_stat (unlink_discard fs p) q = fs_stat fs q"
    by (simp add: fs_stat_def map_of_unlink)
  show ?thesis
    by (rule conjI a b unlink_twice)+
qed

theorem unlink_absent_is_noop_witness:
  "\<not> existsSync [(''uploads/b.pdf'', \<lparr>stat_size = 7, mtimeMs = 5\<rparr>)] ''uploads/a.pdf''
   \<and> fs_unlink [(''uploads/b.pdf'', \<lparr>stat_size = 7, mtimeMs = 5\<rparr>)] ''uploads/a.pdf''
       = (Some ENOENT, [(''uploads/b.pdf'', \<lparr>stat_size = 7, mtimeMs = 5\<rparr>)])
   \<and> unlink_discard [(''uploads/b.pdf'', \<lparr>stat_size = 7, mtimeMs = 5\<rparr>)] ''uploads/a.pdf''
       = [(''uploads/b.pdf'', \<lparr>stat_size = 7, mtimeMs = 5\<rparr>)]
   \<and> fs_stat (unlink_discard [(''uploads/b.pdf'', \<lparr>stat_size = 7, mtimeMs = 5\<rparr>)] ''uploads/a.pdf'')
        ''uploads/b.pdf'' = Inr \<lparr>stat_size = 7, mtimeMs = 5\<rparr>"
  using unlink_absent_is_noop [of "[(''uploads/b.pdf'', \<lparr>stat_size = 7, mtimeMs = 5\<rparr>)]"
      "''uploads/a.pdf''" "''uploads/b.pdf''"]
  by (simp add: existsSync_def fs_stat_def)

section \<open>Staged file names\<close>

lemma collapse_head: "\<exists>r. collapse_underscores (a # s) = a # r"
  by (induction s arbitrary: a) auto

lemma no_double_collapse: "\<not> double_underscore (collapse_underscores s)"
proof (induction s rule: collapse_underscores.induct)
  case (1 a b cs)
  obtain r where r: "collapse_underscores (b # cs) = b # r"
    using collapse_head by blast
  with 1 show ?case by auto
qed auto

lemma set_collapse: "set (collapse_underscores s) \<subseteq> set s"
  by (induction s rule: collapse_underscores.induct) auto

lemma filter_collapse: "\<not> P CHR ''_'' \<Longrightarrow> filter P (collapse_underscores s) = filter P s"
  by (induction s rule: collapse_underscores.induct) auto

lemma name_char_underscore: "\<not> name_char CHR ''_''"
  by (simp add: name_char_def)

lemma filter_replace: "filter name_char (replace_other s) = filter name_char s"
  by (induction s) (auto simp: replace_other_def name_char_underscore)

lemma collapse_id: "\<not> double_underscore s \<Longrightarrow> collapse_underscores s = s"
  by (induction s rule: collapse_underscores.induct) auto

lemma replace_id: "list_all name_char s \<Longrightarrow> replace_other s = s"
  by (induction s) (auto simp: replace_other_def)

lemma no_double_name: "list_all name_char s \<Longrightarrow> \<not> double_underscore s"
  by (induction s rule: double_underscore.induct) (auto simp: name_char_underscore)

lemma sanitized_chars: "list_all (\<lambda>c. name_char c \<or> c = CHR ''_'') (sanitized s)"
proof -
  have "set (sanitized s) \<subseteq> set (replace_other s)"
    by (simp add: sanitized_def set_collapse)
  moreover have "\<forall>c\<in>set (replace_other s). name_char c \<or> c = CHR ''_''"
    by (auto simp: replace_other_def)
  ultimately show ?thesis
    by (auto simp: list_all_iff)
qed

text \<open>
  C7, as stated, at the original name \<^verbatim>\<open>a b.pdf\<close>: the staged name is not the prefix
  followed by the name with the space stripped; it holds an underscore, a character
  outside alphanumerics, dot and hyphen, in the place of the space.
\<close>

theorem staged_name_not_stripped:
  "storage_filename 1700000000000 ''o82mvyr'' ''a b.pdf'' = ''1700000000000-o82mvyr-a_b.pdf''
   \<and> storage_filename 1700000000000 ''o82mvyr'' ''a b.pdf''
       \<noteq> string_of_nat 1700000000000 @ ''-'' @ ''o82mvyr'' @ ''-'' @ spec_stripped ''a b.pdf''
   \<and> CHR ''_'' \<in> set (sanitized ''a b.pdf'') \<and> \<not> name_char CHR ''_''"
  by (simp add: storage_filename_def sanitized_def replace_other_def spec_stripped_def
      name_char_def string_of_nat.simps digit_char_def)

lemma name_char_not_underscore: "name_char c \<Longrightarrow> c \<noteq> CHR ''_''"
  using name_char_underscore by auto

lemma collapse_underscore_head:
  "collapse_underscores (CHR ''_'' # t)
     = CHR ''_'' # collapse_underscores (dropWhile (\<lambda>x. x = CHR ''_'') t)"
  by (induction t) auto

lemma collapse_other_head:
  "c \<noteq> CHR ''_'' \<Longrightarrow> collapse_underscores (c # t) = c # collapse_underscores t"
  by (cases t) auto

lemma dropWhile_replace:
  "dropWhile (\<lambda>x. x = CHR ''_'') (replace_other s)
     = replace_other (dropWhile (\<lambda>x. \<not> name_char x) s)"
  by (induction s) (auto simp: replace_other_def name_char_not_underscore)

lemma sanitized_kept: "name_char c \<Longrightarrow> sanitized (c # s) = c # sanitized s"
  by (simp add: sanitized_def replace_other_def collapse_other_head name_char_not_underscore)

lemma sanitized_replaced:
  "\<not> name_char c \<Longrightarrow>
   sanitized (c # s) = CHR ''_'' # sanitized (dropWhile (\<lambda>x. \<not> name_char x) s)"
proof -
  assume "\<not> name_char c"
  then have "replace_other (c # s) = CHR ''_'' # replace_other s"
    by (simp add: replace_other_def)
  then show ?thesis
    by (simp add: sanitized_def collapse_underscore_head dropWhile_replace)
qed

text \<open>
  C7, amended. The staged name is the timestamp, the random token and the sanitized
  original name, joined by hyphens. Sanitizing keeps a character that is an
  alphanumeric, a dot or a hyphen, and puts one underscore in the place of every
  maximal run of other characters: they are replaced, not removed. So the sanitized
  name holds only alphanumerics, dots, hyphens and underscores, and no two underscores
  in a row; without its underscores it is the original name with the other characters
  stripped; and an original name made of alphanumerics, dots and hyphens only is kept
  as it is.
\<close>

theorem staged_name_sanitized:
  "filename (stage_part cfg d p)
     = string_of_nat (draw_now d) @ ''-'' @ draw_random d @ ''-'' @ sanitized (part_originalname p)
   \<and> sanitized [] = []
   \<and> (name_char c \<longrightarrow> sanitized (c # nm) = c # sanitized nm)
   \<and> (\<not> name_char c \<longrightarrow>
        sanitized (c # nm) = CHR ''_'' # sanitized (dropWhile (\<lambda>x. \<not> name_char x) nm))
   \<and> list_all (\<lambda>c. name_char c \<or> c = CHR ''_'') (sanitized nm)
   \<and> \<not> double_underscore (sanitized nm)
   \<and> filter name_char (sanitized nm) = spec_stripped nm
   \<and> (list_all name_char nm \<longrightarrow> sanitized nm = nm)"
proof -
  have shape: "filename (stage_part cfg d p)
     = string_of_nat (draw_now d) @ ''-'' @ draw_random d @ ''-'' @ sanitized (part_originalname p)"
    by (simp add: stage_part_def storage_filename_def Let_def)
  have empty: "sanitized [] = []"
    by (simp add: sanitized_def replace_other_def)
  have kept: "name_char c \<longrightarrow> sanitized (c # nm) = c # sanitized nm"
    by (simp add: sanitized_kept)
  have replaced: "\<not> name_char c \<longrightarrow>
      sanitized (c # nm) = CHR ''_'' # sanitized (dropWhile (\<lambda>x. \<not> name_char x) nm)"
    by (simp add: sanitized_replaced)
  have stripped: "filter name_char (sanitized nm) = spec_stripped nm"
    by (simp add: sanitized_def spec_stripped_def filter_collapse name_char_underscore
        filter_replace)
  have same: "list_all name_char nm \<longrightarrow> sanitized nm = nm"
    by (simp add: sanitized_def replace_id collapse_id no_double_name)
  have nodouble: "\<not> double_underscore (sanitized nm)"
    by (simp add: sanitized_def no_double_collapse)
  show ?thesis
    by (rule conjI shape empty kept replaced sanitized_chars nodouble stripped same)+
qed

theorem staged_name_sanitized_witness:
  "name_char CHR ''a'' \<and> \<not> name_char CHR '' '' \<and> list_all name_char ''b.pdf''
   \<and> sanitized '' b.pdf'' = CHR ''_'' # sanitized ''b.pdf''
   \<and> sanitized ''a b.pdf'' = ''a_b.pdf''
   \<and> sanitized ''a $ b.pdf'' = ''a_b.pdf''"
proof -
  have a: "name_char CHR ''a''" and sp: "\<not> name_char CHR '' ''" and dl: "\<not> name_char CHR ''$''"
    and b: "list_all name_char ''b.pdf''"
    by (simp_all add: name_char_def)
  have run1: "dropWhile (\<lambda>x. \<not> name_char x) ''b.pdf'' = ''b.pdf''"
    and run3: "dropWhile (\<lambda>x. \<not> name_char x) ''$ b.pdf'' = ''b.pdf''"
    by (simp_all add: name_char_def)
  note clean = staged_name_sanitized [of sample_cfg "sample_draws 0"
      "sample_part ''files'' ''b.pdf'' ''application/pdf'' 1" "CHR ''a''" "''b.pdf''"]
  have s0: "sanitized ''b.pdf'' = ''b.pdf''"
    using clean b by blast
  note one = staged_name_sanitized [of sample_cfg "sample_draws 0"
      "sample_part ''files'' ''b.pdf'' ''application/pdf'' 1" "CHR '' ''" "''b.pdf''"]
  have s1: "sanitized '' b.pdf'' = CHR ''_'' # sanitized ''b.pdf''"
    using one sp unfolding run1 by blast
  note front = staged_name_sanitized [of sample_cfg "sample_draws 0"
      "sample_part ''files'' ''b.pdf'' ''application/pdf'' 1" "CHR ''a''" "'' b.pdf''"]
  have s2: "sanitized ''a b.pdf'' = ''a_b.pdf''"
    using front a s1 s0 by simp
  note three = staged_name_sanitized [of sample_cfg "sample_draws 0"
      "sample_part ''files'' ''b.pdf'' ''application/pdf'' 1" "CHR '' ''" "''$ b.pdf''"]
  have s3: "sanitized '' $ b.pdf'' = CHR ''_'' # sanitized ''b.pdf''"
    using three sp unfolding run3 by blast
  note front3 = staged_name_sanitized [of sample_cfg "sample_draws 0"
      "sample_part ''files'' ''b.pdf'' ''application/pdf'' 1" "CHR ''a''" "'' $ b.pdf''"]
  have s4: "sanitized ''a $ b.pdf'' = ''a_b.pdf''"
    using front3 a s3 s0 by simp
  show ?thesis
    by (rule conjI a sp b s1 s2 s4)+
qed

section \<open>The sweep\<close>

lemma map_of_sweep_file:
  "map_of (sweep_file cfg now flt file fs) p =
     (case map_of fs p of
        None \<Rightarrow> None
      | Some st \<Rightarrow>
          if p = path_join (TEMP_DIR cfg) file \<and> stat_fault flt p = None
             \<and> unlink_fault flt p = None \<and> now - mtimeMs st > maxAge
          then None else Some st)"
  by (auto simp: sweep_file_def sweep_stat_def sweep_unlink_def fs_stat_def fs_unlink_def
      existsSync_def map_of_filter_fst Let_def split: option.splits)

lemma map_of_sweep_fold:
  "map_of (fold (sweep_file cfg now flt) files fs) p =
     (case map_of fs p of
        None \<Rightarrow> None
      | Some st \<Rightarrow>
          if p \<in> path_join (TEMP_DIR cfg) ` set files \<and> stat_fault flt p = None
             \<and> unlink_fault flt p = None \<and> now - mtimeMs st > maxAge
          then None else Some st)"
proof (induction files arbitrary: fs)
  case Nil
  then show ?case by (simp split: option.splits)
next
  case (Cons f files)
  show ?case
    by (simp add: Cons.IH map_of_sweep_file split: option.splits)
qed

text \<open>An entry fails when its stat gives an error or its unlink would.\<close>

lemma entry_fails_iff:
  "((\<exists>e. sweep_stat flt fs p = Inl e) \<or> (\<exists>e. fst (sweep_unlink flt fs p) = Some e))
     = (stat_fault flt p \<noteq> None \<or> unlink_fault flt p \<noteq> None \<or> \<not> existsSync fs p)"
  by (auto simp: sweep_stat_def sweep_unlink_def fs_stat_def fs_unlink_def existsSync_def
      split: option.splits)

lemma sweep_file_failing:
  "stat_fault flt (path_join (TEMP_DIR cfg) file) \<noteq> None
     \<or> unlink_fault flt (path_join (TEMP_DIR cfg) file) \<noteq> None
     \<or> \<not> existsSync fs (path_join (TEMP_DIR cfg) file) \<Longrightarrow>
   sweep_file cfg now flt file fs = fs"
  by (auto simp: sweep_file_def sweep_stat_def sweep_unlink_def fs_stat_def existsSync_def
      Let_def split: option.splits)

lemma sweep_skips_failed:
  "\<forall>f\<in>S. stat_fault flt (path_join (TEMP_DIR cfg) f) \<noteq> None
          \<or> unlink_fault flt (path_join (TEMP_DIR cfg) f) \<noteq> None
          \<or> \<not> existsSync fs (path_join (TEMP_DIR cfg) f) \<Longrightarrow>
   fold (sweep_file cfg now flt) files fs
     = fold (sweep_file cfg now flt) (filter (\<lambda>f. f \<notin> S) files) fs"
proof (induction files arbitrary: fs)
  case Nil
  then show ?case by simp
next
  case (Cons x files)
  have keep: "\<forall>f\<in>S. stat_fault flt (path_join (TEMP_DIR cfg) f) \<noteq> None
      \<or> unlink_fault flt (path_join (TEMP_DIR cfg) f) \<noteq> None
      \<or> \<not> existsSync (sweep_file cfg now flt x fs) (path_join (TEMP_DIR cfg) f)"
    using Cons.prems by (auto simp: existsSync_def map_of_sweep_file split: option.splits)
  show ?case
  proof (cases "x \<in> S")
    case True
    then have "sweep_file cfg now flt x fs = fs"
      using Cons.prems sweep_file_failing by blast
    with True Cons show ?thesis by simp
  next
    case False
    then show ?thesis using Cons.IH [OF keep] by simp
  qed
qed

lemma entry_name_join:
  "name \<noteq> [] \<Longrightarrow> CHR ''/'' \<notin> set name \<Longrightarrow> entry_name dir (path_join dir name) = Some name"
  by (simp add: entry_name_def path_join_def)

lemma readdir_lists:
  assumes "existsSync fs (path_join dir name)" "name \<noteq> []" "CHR ''/'' \<notin> set name"
  shows "name \<in> set (readdir fs dir)"
proof -
  from assms(1) obtain st where "(path_join dir name, st) \<in> set fs"
    by (auto simp: existsSync_def dest: map_of_SomeD)
  then show ?thesis
    using entry_name_join [OF assms(2,3), of dir]
    by (force simp: readdir_def List.map_filter_def image_iff)
qed

lemma sweep_callback_old:
  assumes "file \<in> set files" "sweep_stat flt fs (path_join (TEMP_DIR cfg) file) = Inr st"
    "now - mtimeMs st > maxAge" "fst (sweep_unlink flt fs (path_join (TEMP_DIR cfg) file)) = None"
  shows "\<not> existsSync (sweep_callback cfg now flt None files fs) (path_join (TEMP_DIR cfg) file)"
  using assms
  by (auto simp: sweep_callback_def existsSync_def sweep_stat_def sweep_unlink_def fs_stat_def
      map_of_sweep_fold split: option.splits)

lemma sweep_callback_young:
  assumes "fs_stat fs p = Inr st" "now - mtimeMs st \<le> maxAge"
  shows "fs_stat (sweep_callback cfg now flt None files fs) p = Inr st"
  using assms
  by (auto simp: sweep_callback_def fs_stat_def map_of_sweep_fold split: option.splits)

lemma sweep_callback_undeleted:
  assumes "sweep_stat flt fs p = Inr st" "fst (sweep_unlink flt fs p) = Some e"
  shows "fs_stat (sweep_callback cfg now flt None files fs) p = Inr st"
  using assms
  by (auto simp: sweep_callback_def sweep_stat_def sweep_unlink_def fs_stat_def fs_unlink_def
      existsSync_def map_of_sweep_fold split: option.splits if_splits)

text \<open>
  C8. One sweep cycle at time \<open>now\<close>, under any faults. For the callback of
  \<^verbatim>\<open>fs.readdir\<close> on any listing \<open>files\<close>: a listed file whose stat succeeds, that is
  older than 30 minutes and whose unlink does not fail is gone afterwards; a file whose
  age is at most 30 minutes keeps its entry unchanged; a file whose unlink fails stays
  as it is; and the entries whose stat or unlink fails do not touch the rest, the sweep
  being the same as on the listing without them. For the whole cycle, where the listing
  is what \<^verbatim>\<open>fs.readdir\<close> returns: every entry of the staging directory that is older
  than 30 minutes, and on which stat and unlink do not fail, is gone afterwards, and
  every file not older is unchanged.
\<close>

theorem sweep_removes_old_keeps_young:
  "(file \<in> set files \<and> sweep_stat flt fs (path_join (TEMP_DIR cfg) file) = Inr st
      \<and> now - mtimeMs st > 30 * 60 * 1000
      \<and> fst (sweep_unlink flt fs (path_join (TEMP_DIR cfg) file)) = None
     \<longrightarrow> \<not> existsSync (sweep_callback cfg now flt None files fs) (path_join (TEMP_DIR cfg) file))
   \<and> (fs_stat fs p = Inr st' \<and> now - mtimeMs st' \<le> 30 * 60 * 1000
     \<longrightarrow> fs_stat (sweep_callback cfg now flt None files fs) p = Inr st'
         \<and> fs_stat (sweep cfg now flt fs) p = Inr st')
   \<and> (sweep_stat flt fs q = Inr st'' \<and> fst (sweep_unlink flt fs q) = Some e
     \<longrightarrow> fs_stat (sweep_callback cfg now flt None files fs) q = Inr st''
         \<and> fs_stat (sweep cfg now flt fs) q = Inr st'')
   \<and> ((\<forall>f\<in>set failing.
          (\<exists>e. sweep_stat flt fs (path_join (TEMP_DIR cfg) f) = Inl e)
          \<or> (\<exists>e. fst (sweep_unlink flt fs (path_join (TEMP_DIR cfg) f)) = Some e))
     \<longrightarrow> sweep_callback cfg now flt None files fs
         = sweep_callback cfg now flt None (filter (\<lambda>f. f \<notin> set failing) files) fs)
   \<and> (name \<noteq> [] \<and> CHR ''/'' \<notin> set name
      \<and> sweep_stat flt fs (path_join (TEMP_DIR cfg) name) = Inr st
      \<and> now - mtimeMs st > 30 * 60 * 1000
      \<and> fst (sweep_unlink flt fs (path_join (TEMP_DIR cfg) name)) = None
     \<longrightarrow> \<not> existsSync (sweep cfg now flt fs) (path_join (TEMP_DIR cfg) name))"
proof -
  have age: "maxAge = 30 * 60 * 1000"
    by (simp add: maxAge_def)
  have old: "file \<in> set files \<and> sweep_stat flt fs (path_join (TEMP_DIR cfg) file) = Inr st
      \<and> now - mtimeMs st > 30 * 60 * 1000
      \<and> fst (sweep_unlink flt fs (path_join (TEMP_DIR cfg) file)) = None
     \<longrightarrow> \<not> existsSync (sweep_callback cfg now flt None files fs) (path_join (TEMP_DIR cfg) file)"
    using sweep_callback_old [of "file" "files" flt fs cfg st "now"] by (simp add: age)
  have young: "fs_stat fs p = Inr st' \<and> now - mtimeMs st' \<le> 30 * 60 * 1000
     \<longrightarrow> fs_stat (sweep_callback cfg now flt None files fs) p = Inr st'
         \<and> fs_stat (sweep cfg now flt fs) p = Inr st'"
    using sweep_callback_young [of fs p st' "now" cfg flt] by (simp add: age sweep_def)
  have undeleted: "sweep_stat flt fs q = Inr st'' \<and> fst (sweep_unlink flt fs q) = Some e
     \<longrightarrow> fs_stat (sweep_callback cfg now flt None files fs) q = Inr st''
         \<and> fs_stat (sweep cfg now flt fs) q = Inr st''"
    using sweep_callback_undeleted [of flt fs q st'' e cfg "now"] by (simp add: sweep_def)
  have skip: "(\<forall>f\<in>set failing.
          (\<exists>e. sweep_stat flt fs (path_join (TEMP_DIR cfg) f) = Inl e)
          \<or> (\<exists>e. fst (sweep_unlink flt fs (path_join (TEMP_DIR cfg) f)) = Some e))
     \<longrightarrow> sweep_callback cfg now flt None files fs
         = sweep_callback cfg now flt None (filter (\<lambda>f. f \<notin> set failing) files) fs"
  proof
    assume "\<forall>f\<in>set failing.
          (\<exists>e. sweep_stat flt fs (path_join (TEMP_DIR cfg) f) = Inl e)
          \<or> (\<exists>e. fst (sweep_unlink flt fs (path_join (TEMP_DIR cfg) f)) = Some e)"
    then have "\<forall>f\<in>set failing. stat_fault flt (path_join (TEMP_DIR cfg) f) \<noteq> None
          \<or> unlink_fault flt (path_join (TEMP_DIR cfg) f) \<noteq> None
          \<or> \<not> existsSync fs (path_join (TEMP_DIR cfg) f)"
      unfolding entry_fails_iff .
    then show "sweep_callback cfg now flt None files fs
         = sweep_callback cfg now flt None (filter (\<lambda>f. f \<notin> set failing) files) fs"
      unfolding sweep_callback_def option.case by (rule sweep_skips_failed)
  qed
  have cycle: "name \<noteq> [] \<and> CHR ''/'' \<notin> set name
      \<and> sweep_stat flt fs (path_join (TEMP_DIR cfg) name) = Inr st
      \<and> now - mtimeMs st > 30 * 60 * 1000
      \<and> fst (sweep_unlink flt fs (path_join (TEMP_DIR cfg) name)) = None
     \<longrightarrow> \<not> existsSync (sweep cfg now flt fs) (path_join (TEMP_DIR cfg) name)"
  proof (intro impI, elim conjE)
    assume n: "name \<noteq> []" "CHR ''/'' \<notin> set name"
      and s: "sweep_stat flt fs (path_join (TEMP_DIR cfg) name) = Inr st"
      and o: "now - mtimeMs st > 30 * 60 * 1000"
      and u: "fst (sweep_unlink flt fs (path_join (TEMP_DIR cfg) name)) = None"
    from s have "existsSync fs (path_join (TEMP_DIR cfg) name)"
      by (auto simp: sweep_stat_def fs_stat_def existsSync_def split: option.splits)
    then have "name \<in> set (readdir fs (TEMP_DIR cfg))"
      using n by (rule readdir_lists)
    then show "\<not> existsSync (sweep cfg now flt fs) (path_join (TEMP_DIR cfg) name)"
      unfolding sweep_def using s o u sweep_callback_old [of name _ flt fs cfg st "now"]
      by (simp add: age)
  qed
  show ?thesis
    by (rule conjI old young undeleted skip cycle)+
qed

theorem sweep_removes_old_keeps_young_witness:
  "sweep_stat sample_faults
       [(''uploads/a'', \<lparr>stat_size = 3, mtimeMs = 0\<rparr>),
        (''uploads/b'', \<lparr>stat_size = 2, mtimeMs = 1000000\<rparr>),
        (''uploads/c'', \<lparr>stat_size = 4, mtimeMs = 0\<rparr>),
        (''uploads/d'', \<lparr>stat_size = 5, mtimeMs = 0\<rparr>)] ''uploads/d'' = Inl EACCES
   \<and> fst (sweep_unlink sample_faults
       [(''uploads/a'', \<lparr>stat_size = 3, mtimeMs = 0\<rparr>),
        (''uploads/b'', \<lparr>stat_size = 2, mtimeMs = 1000000\<rparr>),
        (''uploads/c'', \<lparr>stat_size = 4, mtimeMs = 0\<rparr>),
        (''uploads/d'', \<lparr>stat_size = 5, mtimeMs = 0\<rparr>)] ''uploads/c'') = Some EPERM
   \<and> \<not> existsSync (sweep_callback sample_cfg 2000000 sample_faults None
          [''gone'', ''d'', ''c'', ''a'', ''b'']
          [(''uploads/a'', \<lparr>stat_size = 3, mtimeMs = 0\<rparr>),
           (''uploads/b'', \<lparr>stat_size = 2, mtimeMs = 1000000\<rparr>),
           (''uploads/c'', \<lparr>stat_size = 4, mtimeMs = 0\<rparr>),
           (''uploads/d'', \<lparr>stat_size = 5, mtimeMs = 0\<rparr>)]) ''uploads/a''
   \<and> fs_stat (sweep_callback sample_cfg 2000000 sample_faults None
          [''gone'', ''d'', ''c'', ''a'', ''b'']
          [(''uploads/a'', \<lparr>stat_size = 3, mtimeMs = 0\<rparr>),
           (''uploads/b'', \<lparr>stat_size = 2, mtimeMs = 1000000\<rparr>),
           (''uploads/c'', \<lparr>stat_size = 4, mtimeMs = 0\<rparr>),
           (''uploads/d'', \<lparr>stat_size = 5, mtimeMs = 0\<rparr>)]) ''uploads/b''
     = Inr \<lparr>stat_size = 2, mtimeMs = 1000000\<rparr>
   \<and> fs_stat (sweep_callback sample_cfg 2000000 sample_faults None
          [''gone'', ''d'', ''c'', ''a'', ''b'']
          [(''uploads/a'', \<lparr>stat_size = 3, mtimeMs = 0\<rparr>),
           (''uploads/b'', \<lparr>stat_size = 2, mtimeMs = 1000000\<rparr>),
           (''uploads/c'', \<lparr>stat_size = 4, mtimeMs = 0\<rparr>),
           (''uploads/d'', \<lparr>stat_size = 5, mtimeMs = 0\<rparr>)]) ''uploads/c''
     = Inr \<lparr>stat_size = 4, mtimeMs = 0\<rparr>
   \<and> sweep_callback sample_cfg 2000000 sample_faults None
          [''gone'', ''d'', ''c'', ''a'', ''b'']
          [(''uploads/a'', \<lparr>stat_size = 3, mtimeMs = 0\<rparr>),
           (''uploads/b'', \<lparr>stat_size = 2, mtimeMs = 1000000\<rparr>),
           (''uploads/c'', \<lparr>stat_size = 4, mtimeMs = 0\<rparr>),
           (''uploads/d'', \<lparr>stat_size = 5, mtimeMs = 0\<rparr>)]
     = sweep_callback sample_cfg 2000000 sample_faults None [''a'', ''b'']
          [(''uploads/a'', \<lparr>stat_size = 3, mtimeMs = 0\<rparr>),
           (''uploads/b'', \<lparr>stat_size = 2, mtimeMs = 1000000\<rparr>),
           (''uploads/c'', \<lparr>stat_size = 4, mtimeMs = 0\<rparr>),
           (''uploads/d'', \<lparr>stat_size = 5, mtimeMs = 0\<rparr>)]
   \<and> \<not> existsSync (sweep sample_cfg 2000000 sample_faults
          [(''uploads/a'', \<lparr>stat_size = 3, mtimeMs = 0\<rparr>),
           (''uploads/b'', \<lparr>stat_size = 2, mtimeMs = 1000000\<rparr>),
           (''uploads/c'', \<lparr>stat_size = 4, mtimeMs = 0\<rparr>),
           (''uploads/d'', \<lparr>stat_size = 5, mtimeMs = 0\<rparr>)]) ''uploads/a''"
proof -
  let ?a = "\<lparr>stat_size = 3, mtimeMs = 0\<rparr>"
  let ?b = "\<lparr>stat_size = 2, mtimeMs = 1000000\<rparr>"
  let ?c = "\<lparr>stat_size = 4, mtimeMs = 0\<rparr>"
  let ?fs = "[(''uploads/a'', ?a), (''uploads/b'', ?b), (''uploads/c'', ?c),
              (''uploads/d'', \<lparr>stat_size = 5, mtimeMs = 0\<rparr>)]"
  let ?files = "[''gone'', ''d'', ''c'', ''a'', ''b'']"
  have pa: "path_join (TEMP_DIR sample_cfg) ''a'' = ''uploads/a''"
    by (simp add: path_join_def sample_cfg_def)
  have sa: "sweep_stat sample_faults ?fs ''uploads/a'' = Inr ?a"
    and sc: "sweep_stat sample_faults ?fs ''uploads/c'' = Inr ?c"
    and sd: "sweep_stat sample_faults ?fs ''uploads/d'' = Inl EACCES"
    and sg: "sweep_stat sample_faults ?fs ''uploads/gone'' = Inl ENOENT"
    and sb: "fs_stat ?fs ''uploads/b'' = Inr ?b"
    by (simp_all add: sweep_stat_def sample_faults_def fs_stat_def)
  have ua: "fst (sweep_unlink sample_faults ?fs ''uploads/a'') = None"
    and uc: "fst (sweep_unlink sample_faults ?fs ''uploads/c'') = Some EPERM"
    by (simp_all add: sweep_unlink_def sample_faults_def fs_unlink_def existsSync_def)
  note cycle = sweep_removes_old_keeps_young [of "''a''" ?files sample_faults ?fs
        sample_cfg ?a 2000000 "''uploads/b''" ?b "''uploads/c''" ?c EPERM
        "[''gone'', ''d'', ''c'']" "''a''"]
  have old: "''a'' \<in> set ?files
      \<and> sweep_stat sample_faults ?fs (path_join (TEMP_DIR sample_cfg) ''a'') = Inr ?a
      \<and> 30 * 60 * 1000 < 2000000 - mtimeMs ?a
      \<and> fst (sweep_unlink sample_faults ?fs (path_join (TEMP_DIR sample_cfg) ''a'')) = None"
    by (simp add: pa sa ua)
  have young: "fs_stat ?fs ''uploads/b'' = Inr ?b \<and> 2000000 - mtimeMs ?b \<le> 30 * 60 * 1000"
    by (simp add: sb)
  have locked: "sweep_stat sample_faults ?fs ''uploads/c'' = Inr ?c
      \<and> fst (sweep_unlink sample_faults ?fs ''uploads/c'') = Some EPERM"
    by (simp add: sc uc)
  have failing: "\<forall>f\<in>set [''gone'', ''d'', ''c''].
      (\<exists>e. sweep_stat sample_faults ?fs (path_join (TEMP_DIR sample_cfg) f) = Inl e)
      \<or> (\<exists>e. fst (sweep_unlink sample_faults ?fs (path_join (TEMP_DIR sample_cfg) f)) = Some e)"
    by (simp add: path_join_def sample_cfg_def sg sd uc)
  have listed: "''a'' \<noteq> [] \<and> CHR ''/'' \<notin> set ''a''
      \<and> sweep_stat sample_faults ?fs (path_join (TEMP_DIR sample_cfg) ''a'') = Inr ?a
      \<and> 30 * 60 * 1000 < 2000000 - mtimeMs ?a
      \<and> fst (sweep_unlink sample_faults ?fs (path_join (TEMP_DIR sample_cfg) ''a'')) = None"
    by (simp add: pa sa ua)
  have rest: "filter (\<lambda>f. f \<notin> set [''gone'', ''d'', ''c'']) ?files = [''a'', ''b'']"
    by simp
  have c1: "\<not> existsSync (sweep_callback sample_cfg 2000000 sample_faults None ?files ?fs)
      ''uploads/a''"
    using cycle [THEN conjunct1, THEN mp, OF old] unfolding pa .
  have c2: "fs_stat (sweep_callback sample_cfg 2000000 sample_faults None ?files ?fs)
      ''uploads/b'' = Inr ?b"
    using cycle [THEN conjunct2, THEN conjunct1, THEN mp, OF young] by (rule conjunct1)
  have c3: "fs_stat (sweep_callback sample_cfg 2000000 sample_faults None ?files ?fs)
      ''uploads/c'' = Inr ?c"
    using cycle [THEN conjunct2, THEN conjunct2, THEN conjunct1, THEN mp, OF locked]
    by (rule conjunct1)
  have c4: "sweep_callback sample_cfg 2000000 sample_faults None ?files ?fs
      = sweep_callback sample_cfg 2000000 sample_faults None [''a'', ''b''] ?fs"
    using cycle [THEN conjunct2, THEN conjunct2, THEN conjunct2, THEN conjunct1, THEN mp,
        OF failing]
    unfolding rest .
  have c5: "\<not> existsSync (sweep sample_cfg 2000000 sample_faults ?fs) ''uploads/a''"
    using cycle [THEN conjunct2, THEN conjunct2, THEN conjunct2, THEN conjunct2, THEN mp,
        OF listed]
    unfolding pa .
  show ?thesis
    by (rule conjI sd uc c1 c2 c3 c4 c5)+
qed

section \<open>Startup and health\<close>

text \<open>
  C10. A process that is listening has passed the check of lines 23-26, so every health
  response it produces has \<^verbatim>\<open>n8nConnected: true\<close>; without a webhook URL the process
  exits with code 1 instead of listening.
\<close>

theorem health_reports_connected:
  "(startup e = Listening cfg \<longrightarrow>
      map_of (health cfg timestamp uptime) ''n8nConnected'' = Some (JBool True))
   \<and> (\<not> url_truthy (env_N8N_WEBHOOK_URL e) \<longrightarrow> startup e = Exited 1)"
  by (auto simp: startup_def load_config_def health_def Let_def split: if_splits)

theorem health_reports_connected_witness:
  "startup \<lparr> env_PORT = None, env_N8N_WEBHOOK_URL = Some ''http://n8n.local/webhook/licitaciones'',
             env_MAX_FILE_SIZE_MB = None, env_TEMP_DIR = Some ''uploads'' \<rparr> = Listening sample_cfg
   \<and> map_of (health sample_cfg ''2023-11-14T22:13:20.000Z'' (JNum 12)) ''n8nConnected''
       = Some (JBool True)
   \<and> startup \<lparr> env_PORT = None, env_N8N_WEBHOOK_URL = None,
               env_MAX_FILE_SIZE_MB = None, env_TEMP_DIR = None \<rparr> = Exited 1"
proof -
  have run: "startup \<lparr> env_PORT = None,
      env_N8N_WEBHOOK_URL = Some ''http://n8n.local/webhook/licitaciones'',
      env_MAX_FILE_SIZE_MB = None, env_TEMP_DIR = Some ''uploads'' \<rparr> = Listening sample_cfg"
    by (simp add: startup_def load_config_def sample_cfg_def url_truthy_def str_or_def)
  have stop: "\<not> url_truthy (env_N8N_WEBHOOK_URL \<lparr> env_PORT = None, env_N8N_WEBHOOK_URL = None,
      env_MAX_FILE_SIZE_MB = None, env_TEMP_DIR = None \<rparr>)"
    by (simp add: url_truthy_def)
  show ?thesis
    using run stop
      health_reports_connected [of "\<lparr> env_PORT = None,
        env_N8N_WEBHOOK_URL = Some ''http://n8n.local/webhook/licitaciones'',
        env_MAX_FILE_SIZE_MB = None, env_TEMP_DIR = Some ''uploads'' \<rparr>" sample_cfg
        "''2023-11-14T22:13:20.000Z''" "JNum 12"]
      health_reports_connected [of "\<lparr> env_PORT = None, env_N8N_WEBHOOK_URL = None,
        env_MAX_FILE_SIZE_MB = None, env_TEMP_DIR = None \<rparr>" sample_cfg]
    by simp
qed

section \<open>The handlers: what the relay gives and what is answered\<close>

lemma existsSync_unlink:
  "existsSync (unlink_discard fs p) q = (existsSync fs q \<and> q \<noteq> p)"
  by (simp add: existsSync_def map_of_unlink)

lemma existsSync_unlink_all:
  "existsSync (unlink_all fs ps) q = (existsSync fs q \<and> q \<notin> set ps)"
  by (simp add: existsSync_def map_of_unlink_all)

lemma existsSync_unlink_existing:
  "existsSync (unlink_existing fs ps) q = (existsSync fs q \<and> q \<notin> set ps)"
  by (simp add: existsSync_def map_of_unlink_existing)

text \<open>An answer that is not a redirect is handed back; no answer is a rejection.\<close>

lemma follow_direct:
  assumes "net rq = Answer st loc d" "loc = None \<or> st < 300 \<or> 400 \<le> st"
  shows "follow_redirects net left rq = Responded st d"
  using assms by (cases left; cases loc) auto

lemma follow_no_answer:
  assumes "net rq = NoAnswer message"
  shows "follow_redirects net left rq = Failed message"
  using assms by (cases left) auto

lemma axios_post_present:
  assumes "\<forall>p\<in>set (file_part_paths (rq_form rq)). existsSync fs p"
  shows "axios_post env fs rq
           = follow_redirects (downstream env) (maxRedirects env) (first_request rq)"
proof -
  from assms have "filter (\<lambda>p. \<not> existsSync fs p) (file_part_paths (rq_form rq)) = []"
    by (simp add: filter_empty_conv)
  then show ?thesis
    by (simp add: axios_post_def first_request_def)
qed

text \<open>The text fields are appended behind what the form holds; the file parts stay.\<close>

lemma append_all_parts:
  assumes "append_all formData kvs = Inr formData'"
  shows "file_part_paths formData' = file_part_paths formData"
    and "file_part_names formData' = file_part_names formData"
proof -
  have paths: "file_part_paths (xs @ [Field k v]) = file_part_paths xs" for xs k v
    by (induction xs rule: file_part_paths.induct) simp_all
  have names: "file_part_names (xs @ [Field k v]) = file_part_names xs" for xs k v
    by (induction xs rule: file_part_names.induct) simp_all
  have "file_part_paths formData' = file_part_paths formData
      \<and> file_part_names formData' = file_part_names formData"
    using assms
  proof (induction kvs arbitrary: formData)
    case Nil
    then show ?case by simp
  next
    case (Cons kv kvs)
    obtain k v where kv: "kv = (k, v)" by (cases kv)
    from Cons.prems kv obtain s where v: "v = Text s"
      and rest: "append_all (formData @ [Field k s]) kvs = Inr formData'"
      by (cases v) (auto simp: append_value_def)
    from Cons.IH [OF rest] show ?case
      by (simp add: paths names)
  qed
  then show "file_part_paths formData' = file_part_paths formData"
    and "file_part_names formData' = file_part_names formData"
    by simp_all
qed

lemma paths_append_files: "file_part_paths (append_files i files) = map path files"
  by (induction files arbitrary: i) simp_all

lemma batch_form_paths:
  assumes "batch_form env req = Inr formData"
  shows "file_part_paths formData = map path (req_files req)"
  by (rule trans [OF append_all_parts(1) [OF assms [unfolded batch_form_def]]
        paths_append_files])

lemma upload_form_paths:
  assumes "upload_form req f = Inr formData"
  shows "file_part_paths formData = [path f]"
  using append_all_parts(1) [OF assms [unfolded upload_form_def]] by simp

text \<open>The branches of the batch handler.\<close>

lemma batch_handler_no_files:
  assumes "req_files req = []"
  shows "relay_calls (upload_batch_handler cfg env req fs) = []"
    and "status (res (upload_batch_handler cfg env req fs)) = 400"
    and "fs_after (upload_batch_handler cfg env req fs) = fs"
  using assms by (simp_all add: upload_batch_handler_def)

lemma batch_handler_threw:
  assumes "req_files req \<noteq> []" "batch_form env req = Inl m"
  shows "res (upload_batch_handler cfg env req fs)
           = \<lparr> status = 500, body = [(''success'', JBool False), (''error'', JStr m)] \<rparr>"
    and "fs_after (upload_batch_handler cfg env req fs)
           = unlink_existing fs (map path (req_files req))"
    and "relay_calls (upload_batch_handler cfg env req fs) = []"
  using assms by (simp_all add: upload_batch_handler_def batch_catch_def Let_def)

lemma batch_handler_failed:
  assumes "req_files req \<noteq> []" "batch_form env req = Inr formData"
    "axios_post env fs (batch_relay cfg formData) = Failed m"
  shows "res (upload_batch_handler cfg env req fs)
           = \<lparr> status = 500, body = [(''success'', JBool False), (''error'', JStr m)] \<rparr>"
    and "fs_after (upload_batch_handler cfg env req fs)
           = unlink_existing fs (map path (req_files req))"
    and "relay_calls (upload_batch_handler cfg env req fs) = [batch_relay cfg formData]"
  using assms by (simp_all add: upload_batch_handler_def batch_catch_def Let_def)

lemma batch_handler_responded:
  assumes "req_files req \<noteq> []" "batch_form env req = Inr formData"
    "axios_post env fs (batch_relay cfg formData) = Responded st d"
  shows "status (res (upload_batch_handler cfg env req fs))
           = (if 200 \<le> st \<and> st < 300 then 200 else st)"
    and "fs_after (upload_batch_handler cfg env req fs) = unlink_all fs (map path (req_files req))"
    and "relay_calls (upload_batch_handler cfg env req fs) = [batch_relay cfg formData]"
  using assms by (simp_all add: upload_batch_handler_def Let_def)

text \<open>The branches of the single-file handler.\<close>

lemma upload_handler_no_file:
  assumes "req_file req = None"
  shows "relay_calls (upload_handler cfg env req fs) = []"
    and "status (res (upload_handler cfg env req fs)) = 400"
    and "fs_after (upload_handler cfg env req fs) = fs"
  using assms by (simp_all add: upload_handler_def)

lemma upload_handler_threw:
  assumes "req_file req = Some f" "upload_form req f = Inl m"
  shows "status (res (upload_handler cfg env req fs)) = 500"
    and "map_of (body (res (upload_handler cfg env req fs))) ''error'' = Some (JStr m)"
    and "fs_after (upload_handler cfg env req fs)
           = (if path f \<noteq> [] \<and> existsSync fs (path f) then unlink_discard fs (path f) else fs)"
    and "relay_calls (upload_handler cfg env req fs) = []"
  using assms by (simp_all add: upload_handler_def upload_catch_def Let_def)

lemma upload_handler_failed:
  assumes "req_file req = Some f" "upload_form req f = Inr formData"
    "axios_post env fs (upload_relay cfg formData) = Failed m"
  shows "status (res (upload_handler cfg env req fs)) = 500"
    and "map_of (body (res (upload_handler cfg env req fs))) ''error'' = Some (JStr m)"
    and "fs_after (upload_handler cfg env req fs)
           = (if path f \<noteq> [] \<and> existsSync fs (path f) then unlink_discard fs (path f) else fs)"
    and "relay_calls (upload_handler cfg env req fs) = [upload_relay cfg formData]"
  using assms by (simp_all add: upload_handler_def upload_catch_def Let_def)

lemma upload_handler_responded:
  assumes "req_file req = Some f" "upload_form req f = Inr formData"
    "axios_post env fs (upload_relay cfg formData) = Responded st d"
  shows "status (res (upload_handler cfg env req fs))
           = (if 200 \<le> st \<and> st < 300 then 200 else st)"
    and "fs_after (upload_handler cfg env req fs) = unlink_discard fs (path f)"
    and "relay_calls (upload_handler cfg env req fs) = [upload_relay cfg formData]"
  using assms by (simp_all add: upload_handler_def Let_def)

text \<open>When the staged files are there, the outcome of the call is that of the network.\<close>

lemma batch_post_present:
  assumes "batch_form env req = Inr formData" "\<forall>f\<in>set (req_files req). existsSync fs (path f)"
  shows "axios_post env fs (batch_relay cfg formData)
           = follow_redirects (downstream env) (maxRedirects env)
               (first_request (batch_relay cfg formData))"
proof (rule axios_post_present)
  show "\<forall>p\<in>set (file_part_paths (rq_form (batch_relay cfg formData))). existsSync fs p"
    using assms by (simp add: batch_relay_def batch_form_paths)
qed

lemma upload_post_present:
  assumes "upload_form req f = Inr formData" "existsSync fs (path f)"
  shows "axios_post env fs (upload_relay cfg formData)
           = follow_redirects (downstream env) (maxRedirects env)
               (first_request (upload_relay cfg formData))"
proof (rule axios_post_present)
  show "\<forall>p\<in>set (file_part_paths (rq_form (upload_relay cfg formData))). existsSync fs p"
    using assms by (simp add: upload_relay_def upload_form_paths)
qed

lemma sample_downstream:
  "downstream (sample_env (Responded st d)) rq = Answer st None d"
  "downstream (sample_env (Failed m)) rq = NoAnswer m"
  by (simp_all add: sample_env_def)

lemma plain_forms:
  assumes "plain_text (req_body req ''batch_id'')" "plain_text (req_body req ''process_type'')"
    "plain_text (req_body req ''client_id'')"
  shows "\<exists>formData. batch_form env req = Inr formData"
    and "\<exists>formData. upload_form req f = Inr formData"
proof -
  have astext: "plain_text v \<Longrightarrow> \<exists>s. body_or v d = Text s" for v d
    by (cases v rule: plain_text.cases) (simp_all add: body_or_def)
  obtain b where b: "body_or (req_body req ''batch_id'')
      (''batch_'' @ string_of_nat (now_batch env)) = Text b"
    using astext [OF assms(1)] by blast
  obtain t where t: "body_or (req_body req ''process_type'') ''GG'' = Text t"
    using astext [OF assms(2)] by blast
  obtain c where c: "body_or (req_body req ''client_id'') ''INTELEC_SL'' = Text c"
    using astext [OF assms(3)] by blast
  show "\<exists>formData. batch_form env req = Inr formData"
    unfolding batch_form_def b t c by (simp add: append_value_def)
  show "\<exists>formData. upload_form req f = Inr formData"
    unfolding upload_form_def t c by (simp add: append_value_def)
qed

lemma follow_redirects_unfold:
  "follow_redirects net left rq =
     (case net rq of
        NoAnswer message \<Rightarrow> Failed message
      | Answer st loc d \<Rightarrow>
          (case loc of
             None \<Rightarrow> Responded st d
           | Some location \<Rightarrow>
               if st < 300 \<or> 400 \<le> st then Responded st d
               else (case left of
                       0 \<Rightarrow> Failed ''Maximum number of redirects exceeded''
                     | Suc k \<Rightarrow> follow_redirects net k (redirected st location rq))))"
  by (cases left) (auto split: wire_answer.splits option.splits)

lemma follow_moved:
  assumes "net rq = Answer st (Some l) d" "300 \<le> st" "st < 400"
  shows "follow_redirects net left rq
           = (case left of
                0 \<Rightarrow> Failed ''Maximum number of redirects exceeded''
              | Suc k \<Rightarrow> follow_redirects net k (redirected st l rq))"
  using assms by (cases left) auto

lemma not_plain_throws:
  assumes "\<not> plain_text v"
  shows "\<exists>m. append_value formData name (body_or v d) = Inl m"
  using assms by (cases v rule: plain_text.cases) (simp_all add: body_or_def append_value_def)

lemma plain_appends:
  assumes "plain_text v"
  shows "\<exists>s. append_value formData name (body_or v d) = Inr (formData @ [Field name s])"
  using assms by (cases v rule: plain_text.cases) (simp_all add: body_or_def append_value_def)

lemma batch_form_throws:
  assumes "\<not> (plain_text (req_body req ''batch_id'') \<and> plain_text (req_body req ''process_type'')
      \<and> plain_text (req_body req ''client_id''))"
  shows "\<exists>m. batch_form env req = Inl m"
proof (cases "plain_text (req_body req ''batch_id'')")
  case False
  from not_plain_throws [OF this] show ?thesis
    unfolding batch_form_def append_all.simps by (metis (no_types, lifting) sum.case(1))
next
  case b: True
  from plain_appends [OF b] obtain s1 where s1: "append_value (append_files 0 (req_files req))
      ''batch_id'' (body_or (req_body req ''batch_id'')
         (''batch_'' @ string_of_nat (now_batch env)))
      = Inr (append_files 0 (req_files req) @ [Field ''batch_id'' s1])"
    by blast
  show ?thesis
  proof (cases "plain_text (req_body req ''process_type'')")
    case False
    from not_plain_throws [OF this] show ?thesis
      unfolding batch_form_def append_all.simps s1 sum.case
      by (metis (no_types, lifting) sum.case(1))
  next
    case t: True
    from plain_appends [OF t] obtain s2 where s2: "append_value
        (append_files 0 (req_files req) @ [Field ''batch_id'' s1])
        ''process_type'' (body_or (req_body req ''process_type'') ''GG'')
        = Inr ((append_files 0 (req_files req) @ [Field ''batch_id'' s1])
               @ [Field ''process_type'' s2])"
      by blast
    from assms b t have "\<not> plain_text (req_body req ''client_id'')"
      by simp
    from not_plain_throws [OF this] show ?thesis
      unfolding batch_form_def append_all.simps s1 sum.case s2
      by (metis (no_types, lifting) sum.case(1))
  qed
qed

lemma upload_form_throws:
  assumes "\<not> (plain_text (req_body req ''process_type'') \<and> plain_text (req_body req ''client_id''))"
  shows "\<exists>m. upload_form req f = Inl m"
proof (cases "plain_text (req_body req ''process_type'')")
  case False
  from not_plain_throws [OF this] show ?thesis
    unfolding upload_form_def append_all.simps by (metis (no_types, lifting) sum.case(1))
next
  case t: True
  from plain_appends [OF t] obtain s1 where s1: "append_value
      [FilePart ''file'' (path f) (originalname f) ''application/pdf'']
      ''process_type'' (body_or (req_body req ''process_type'') ''GG'')
      = Inr ([FilePart ''file'' (path f) (originalname f) ''application/pdf'']
             @ [Field ''process_type'' s1])"
    by blast
  from assms t have "\<not> plain_text (req_body req ''client_id'')"
    by simp
  from not_plain_throws [OF this] show ?thesis
    unfolding upload_form_def append_all.simps s1 sum.case
    by (metis (no_types, lifting) sum.case(1))
qed

text \<open>
  C4, as stated, in the batch handler with one staged file. On a network where the
  webhook answers 302 with a \<^verbatim>\<open>Location\<close> and the place it names answers 200, the
  caller gets 200, not the 302 of the downstream. And with the field \<^verbatim>\<open>client_id\<close>
  sent twice, on a network that would answer 200, the caller gets 500 though no relay
  call is made and nothing fails on the network.
\<close>

theorem downstream_302_not_forwarded:
  "first_answers moved_env
     (upload_batch_handler sample_cfg moved_env
        \<lparr> req_file = None, req_files = [sample_file ''a.pdf'' 10], req_body = no_fields \<rparr>
        [(''uploads/1700000000000-o82mvyr-a.pdf'', \<lparr>stat_size = 10, mtimeMs = 1700000000000\<rparr>)])
     = [Answer 302 (Some ''http://n8n.local/login'') JNull]
   \<and> status (res (upload_batch_handler sample_cfg moved_env
        \<lparr> req_file = None, req_files = [sample_file ''a.pdf'' 10], req_body = no_fields \<rparr>
        [(''uploads/1700000000000-o82mvyr-a.pdf'', \<lparr>stat_size = 10, mtimeMs = 1700000000000\<rparr>)]))
     = 200
   \<and> status (res (upload_batch_handler sample_cfg (sample_env (Responded 200 JNull))
        \<lparr> req_file = None, req_files = [sample_file ''a.pdf'' 10], req_body = client_id_twice \<rparr>
        [(''uploads/1700000000000-o82mvyr-a.pdf'', \<lparr>stat_size = 10, mtimeMs = 1700000000000\<rparr>)]))
     = 500
   \<and> relay_calls (upload_batch_handler sample_cfg (sample_env (Responded 200 JNull))
        \<lparr> req_file = None, req_files = [sample_file ''a.pdf'' 10], req_body = client_id_twice \<rparr>
        [(''uploads/1700000000000-o82mvyr-a.pdf'', \<lparr>stat_size = 10, mtimeMs = 1700000000000\<rparr>)])
     = []"
proof -
  let ?fs = "[(''uploads/1700000000000-o82mvyr-a.pdf'',
               \<lparr>stat_size = 10, mtimeMs = 1700000000000\<rparr>)]"
  let ?req = "\<lparr> req_file = None, req_files = [sample_file ''a.pdf'' 10], req_body = no_fields \<rparr>"
  let ?twice = "\<lparr> req_file = None, req_files = [sample_file ''a.pdf'' 10],
                   req_body = client_id_twice \<rparr>"
  have staged: "path (sample_file ''a.pdf'' 10) = ''uploads/1700000000000-o82mvyr-a.pdf''"
    by (simp add: sample_file_def stage_part_def storage_filename_def sanitized_def
        replace_other_def name_char_def path_join_def string_of_nat.simps digit_char_def
        sample_cfg_def sample_draws_def sample_part_def Let_def)
  have there: "\<forall>f\<in>set (req_files ?req). existsSync ?fs (path f)"
    by (simp add: staged existsSync_def)
  obtain formData where form: "batch_form moved_env ?req = Inr formData"
    using plain_forms(1) [of ?req moved_env] by (auto simp: no_fields_def)
  have url: "rq_url (batch_relay sample_cfg formData)
      = Some ''http://n8n.local/webhook/licitaciones''"
    by (simp add: batch_relay_def sample_cfg_def)
  have first: "downstream moved_env (first_request (batch_relay sample_cfg formData))
      = Answer 302 (Some ''http://n8n.local/login'') JNull"
    by (simp add: moved_env_def first_request_def url)
  have second: "downstream moved_env
      (redirected 302 ''http://n8n.local/login'' (first_request (batch_relay sample_cfg formData)))
      = Answer 200 None (JStr ''<html>login</html>'')"
    by (simp add: moved_env_def redirected_def first_request_def)
  have limit: "maxRedirects moved_env = Suc 4"
    by (simp add: moved_env_def)
  have "follow_redirects (downstream moved_env) (maxRedirects moved_env)
      (first_request (batch_relay sample_cfg formData))
      = follow_redirects (downstream moved_env) 4
          (redirected 302 ''http://n8n.local/login''
             (first_request (batch_relay sample_cfg formData)))"
    unfolding limit follow_redirects.simps(2) first by simp
  also have "\<dots> = Responded 200 (JStr ''<html>login</html>'')"
    by (rule follow_direct [where net = "downstream moved_env" and loc = None, OF second]) simp
  finally have post: "axios_post moved_env ?fs (batch_relay sample_cfg formData)
      = Responded 200 (JStr ''<html>login</html>'')"
    by (simp add: batch_post_present [OF form there])
  have files: "req_files ?req \<noteq> []"
    by simp
  have answers: "first_answers moved_env (upload_batch_handler sample_cfg moved_env ?req ?fs)
      = [Answer 302 (Some ''http://n8n.local/login'') JNull]"
    by (simp add: first_answers_def batch_handler_responded(3) [OF files form post] first)
  have ok: "status (res (upload_batch_handler sample_cfg moved_env ?req ?fs)) = 200"
    by (simp add: batch_handler_responded(1) [OF files form post])
  have threw: "batch_form (sample_env (Responded 200 JNull)) ?twice
      = Inl ''Arrays are not supported.''"
    by (simp add: batch_form_def append_value_def body_or_def client_id_twice_def)
  have files2: "req_files ?twice \<noteq> []"
    by simp
  have five: "status (res (upload_batch_handler sample_cfg (sample_env (Responded 200 JNull))
      ?twice ?fs)) = 500"
    by (simp add: batch_handler_threw(1) [OF files2 threw])
  have none: "relay_calls (upload_batch_handler sample_cfg (sample_env (Responded 200 JNull))
      ?twice ?fs) = []"
    by (rule batch_handler_threw(3) [OF files2 threw])
  show ?thesis
    by (rule conjI answers ok five none)+
qed

text \<open>
  C4, amended. In both handlers, once the form is built: whatever status
  \<^verbatim>\<open>axios.post\<close> resolves with, one outside 200-299 is the status of the response (one
  inside gives 200), and a rejected \<^verbatim>\<open>axios.post\<close> gives 500 with the error's message.
  With the staged files in place, an answer of the downstream that is not a redirect (no
  \<^verbatim>\<open>Location\<close> header, or a status outside 300-399) is forwarded with its status when
  that is outside 200-299, and no answer from the network gives 500. A 3xx answer with
  a \<^verbatim>\<open>Location\<close> header is not forwarded: axios goes on to the location, the outcome
  of the call being that of the request there with one redirect less allowed, or a
  rejection when none is left. A text field that is not a single string makes the form
  throw: 500 with that error's message and no relay call. A 500 comes from such a
  throw, from a rejected \<^verbatim>\<open>axios.post\<close>, or is the 500 that \<^verbatim>\<open>axios.post\<close> resolved
  with.
\<close>

theorem relay_status_forwarded:
  "(req_files req \<noteq> [] \<longrightarrow>
      (batch_form env req = Inr formData
         \<and> axios_post env fs (batch_relay cfg formData) = Responded st d \<longrightarrow>
         status (res (upload_batch_handler cfg env req fs))
           = (if 200 \<le> st \<and> st < 300 then 200 else st))
      \<and> (batch_form env req = Inr formData
         \<and> axios_post env fs (batch_relay cfg formData) = Failed m \<longrightarrow>
         status (res (upload_batch_handler cfg env req fs)) = 500
         \<and> map_of (body (res (upload_batch_handler cfg env req fs))) ''error'' = Some (JStr m))
      \<and> (batch_form env req = Inr formData
         \<and> (\<forall>f\<in>set (req_files req). existsSync fs (path f))
         \<and> downstream env (first_request (batch_relay cfg formData)) = Answer st loc d
         \<and> (loc = None \<or> st < 300 \<or> 400 \<le> st) \<longrightarrow>
         status (res (upload_batch_handler cfg env req fs))
           = (if 200 \<le> st \<and> st < 300 then 200 else st))
      \<and> (batch_form env req = Inr formData
         \<and> (\<forall>f\<in>set (req_files req). existsSync fs (path f))
         \<and> downstream env (first_request (batch_relay cfg formData)) = NoAnswer m \<longrightarrow>
         status (res (upload_batch_handler cfg env req fs)) = 500
         \<and> map_of (body (res (upload_batch_handler cfg env req fs))) ''error'' = Some (JStr m))
      \<and> (batch_form env req = Inl m \<longrightarrow>
         status (res (upload_batch_handler cfg env req fs)) = 500
         \<and> map_of (body (res (upload_batch_handler cfg env req fs))) ''error'' = Some (JStr m)
         \<and> relay_calls (upload_batch_handler cfg env req fs) = [])
      \<and> (status (res (upload_batch_handler cfg env req fs)) = 500 \<longrightarrow>
         (\<exists>m'. batch_form env req = Inl m')
         \<or> (\<exists>fd m'. batch_form env req = Inr fd
               \<and> axios_post env fs (batch_relay cfg fd) = Failed m')
         \<or> (\<exists>fd d'. batch_form env req = Inr fd
               \<and> axios_post env fs (batch_relay cfg fd) = Responded 500 d'))
      \<and> (batch_form env req = Inr formData
         \<and> (\<forall>f\<in>set (req_files req). existsSync fs (path f))
         \<and> downstream env (first_request (batch_relay cfg formData)) = Answer st (Some l) d
         \<and> 300 \<le> st \<and> st < 400 \<longrightarrow>
         axios_post env fs (batch_relay cfg formData)
           = (case maxRedirects env of
                0 \<Rightarrow> Failed ''Maximum number of redirects exceeded''
              | Suc k \<Rightarrow> follow_redirects (downstream env) k
                           (redirected st l (first_request (batch_relay cfg formData)))))
      \<and> (\<not> (plain_text (req_body req ''batch_id'') \<and> plain_text (req_body req ''process_type'')
              \<and> plain_text (req_body req ''client_id'')) \<longrightarrow>
         (\<exists>m'. batch_form env req = Inl m')))
   \<and> (req_file req = Some f \<longrightarrow>
      (upload_form req f = Inr formData
         \<and> axios_post env fs (upload_relay cfg formData) = Responded st d \<longrightarrow>
         status (res (upload_handler cfg env req fs))
           = (if 200 \<le> st \<and> st < 300 then 200 else st))
      \<and> (upload_form req f = Inr formData
         \<and> axios_post env fs (upload_relay cfg formData) = Failed m \<longrightarrow>
         status (res (upload_handler cfg env req fs)) = 500
         \<and> map_of (body (res (upload_handler cfg env req fs))) ''error'' = Some (JStr m))
      \<and> (upload_form req f = Inr formData \<and> existsSync fs (path f)
         \<and> downstream env (first_request (upload_relay cfg formData)) = Answer st loc d
         \<and> (loc = None \<or> st < 300 \<or> 400 \<le> st) \<longrightarrow>
         status (res (upload_handler cfg env req fs))
           = (if 200 \<le> st \<and> st < 300 then 200 else st))
      \<and> (upload_form req f = Inr formData \<and> existsSync fs (path f)
         \<and> downstream env (first_request (upload_relay cfg formData)) = NoAnswer m \<longrightarrow>
         status (res (upload_handler cfg env req fs)) = 500
         \<and> map_of (body (res (upload_handler cfg env req fs))) ''error'' = Some (JStr m))
      \<and> (upload_form req f = Inl m \<longrightarrow>
         status (res (upload_handler cfg env req fs)) = 500
         \<and> map_of (body (res (upload_handler cfg env req fs))) ''error'' = Some (JStr m)
         \<and> relay_calls (upload_handler cfg env req fs) = [])
      \<and> (status (res (upload_handler cfg env req fs)) = 500 \<longrightarrow>
         (\<exists>m'. upload_form req f = Inl m')
         \<or> (\<exists>fd m'. upload_form req f = Inr fd
               \<and> axios_post env fs (upload_relay cfg fd) = Failed m')
         \<or> (\<exists>fd d'. upload_form req f = Inr fd
               \<and> axios_post env fs (upload_relay cfg fd) = Responded 500 d'))
      \<and> (upload_form req f = Inr formData \<and> existsSync fs (path f)
         \<and> downstream env (first_request (upload_relay cfg formData)) = Answer st (Some l) d
         \<and> 300 \<le> st \<and> st < 400 \<longrightarrow>
         axios_post env fs (upload_relay cfg formData)
           = (case maxRedirects env of
                0 \<Rightarrow> Failed ''Maximum number of redirects exceeded''
              | Suc k \<Rightarrow> follow_redirects (downstream env) k
                           (redirected st l (first_request (upload_relay cfg formData)))))
      \<and> (\<not> (plain_text (req_body req ''process_type'')
              \<and> plain_text (req_body req ''client_id'')) \<longrightarrow>
         (\<exists>m'. upload_form req f = Inl m')))"
proof (intro conjI impI; (elim conjE)?)
  assume "req_files req \<noteq> []" "batch_form env req = Inr formData"
    "axios_post env fs (batch_relay cfg formData) = Responded st d"
  then show "status (res (upload_batch_handler cfg env req fs))
      = (if 200 \<le> st \<and> st < 300 then 200 else st)"
    by (rule batch_handler_responded)
next
  assume "req_files req \<noteq> []" "batch_form env req = Inr formData"
    "axios_post env fs (batch_relay cfg formData) = Failed m"
  then show "status (res (upload_batch_handler cfg env req fs)) = 500"
    by (simp add: batch_handler_failed)
next
  assume "req_files req \<noteq> []" "batch_form env req = Inr formData"
    "axios_post env fs (batch_relay cfg formData) = Failed m"
  then show "map_of (body (res (upload_batch_handler cfg env req fs))) ''error'' = Some (JStr m)"
    by (simp add: batch_handler_failed)
next
  assume ne: "req_files req \<noteq> []" and form: "batch_form env req = Inr formData"
    and there: "\<forall>f\<in>set (req_files req). existsSync fs (path f)"
    and ans: "downstream env (first_request (batch_relay cfg formData)) = Answer st loc d"
    and direct: "loc = None \<or> st < 300 \<or> 400 \<le> st"
  have "axios_post env fs (batch_relay cfg formData) = Responded st d"
    by (simp add: batch_post_present [OF form there]
        follow_direct [where net = "downstream env", OF ans direct])
  with ne form show "status (res (upload_batch_handler cfg env req fs))
      = (if 200 \<le> st \<and> st < 300 then 200 else st)"
    by (rule batch_handler_responded)
next
  assume ne: "req_files req \<noteq> []" and form: "batch_form env req = Inr formData"
    and there: "\<forall>f\<in>set (req_files req). existsSync fs (path f)"
    and ans: "downstream env (first_request (batch_relay cfg formData)) = NoAnswer m"
  have post: "axios_post env fs (batch_relay cfg formData) = Failed m"
    by (simp add: batch_post_present [OF form there]
        follow_no_answer [where net = "downstream env", OF ans])
  show "status (res (upload_batch_handler cfg env req fs)) = 500"
    by (simp add: batch_handler_failed(1) [OF ne form post])
  show "map_of (body (res (upload_batch_handler cfg env req fs))) ''error'' = Some (JStr m)"
    by (simp add: batch_handler_failed(1) [OF ne form post])
next
  assume ne: "req_files req \<noteq> []" and threw: "batch_form env req = Inl m"
  show "status (res (upload_batch_handler cfg env req fs)) = 500"
    by (simp add: batch_handler_threw(1) [OF ne threw])
  show "map_of (body (res (upload_batch_handler cfg env req fs))) ''error'' = Some (JStr m)"
    by (simp add: batch_handler_threw(1) [OF ne threw])
  show "relay_calls (upload_batch_handler cfg env req fs) = []"
    by (rule batch_handler_threw(3) [OF ne threw])
next
  assume ne: "req_files req \<noteq> []"
    and five: "status (res (upload_batch_handler cfg env req fs)) = 500"
  show "(\<exists>m'. batch_form env req = Inl m')
      \<or> (\<exists>fd m'. batch_form env req = Inr fd \<and> axios_post env fs (batch_relay cfg fd) = Failed m')
      \<or> (\<exists>fd d'. batch_form env req = Inr fd
            \<and> axios_post env fs (batch_relay cfg fd) = Responded 500 d')"
  proof (cases "batch_form env req")
    case (Inl m')
    then show ?thesis by simp
  next
    case (Inr fd)
    show ?thesis
    proof (cases "axios_post env fs (batch_relay cfg fd)")
      case (Responded st' d')
      with ne Inr five have "st' = 500"
        by (simp add: batch_handler_responded(1) [OF ne Inr Responded] split: if_splits)
      with Inr Responded show ?thesis by simp
    next
      case (Failed m')
      with Inr show ?thesis by simp
    qed
  qed
next
  assume form: "batch_form env req = Inr formData"
    and there: "\<forall>f\<in>set (req_files req). existsSync fs (path f)"
    and ans: "downstream env (first_request (batch_relay cfg formData)) = Answer st (Some l) d"
    and redirect: "300 \<le> st" "st < 400"
  show "axios_post env fs (batch_relay cfg formData)
      = (case maxRedirects env of
           0 \<Rightarrow> Failed ''Maximum number of redirects exceeded''
         | Suc k \<Rightarrow> follow_redirects (downstream env) k
                      (redirected st l (first_request (batch_relay cfg formData))))"
    unfolding batch_post_present [OF form there]
    by (rule follow_moved [where net = "downstream env", OF ans redirect])
next
  assume "\<not> (plain_text (req_body req ''batch_id'') \<and> plain_text (req_body req ''process_type'')
      \<and> plain_text (req_body req ''client_id''))"
  then show "\<exists>m'. batch_form env req = Inl m'"
    by (rule batch_form_throws)
next
  assume "req_file req = Some f" "upload_form req f = Inr formData"
    "axios_post env fs (upload_relay cfg formData) = Responded st d"
  then show "status (res (upload_handler cfg env req fs))
      = (if 200 \<le> st \<and> st < 300 then 200 else st)"
    by (rule upload_handler_responded)
next
  assume "req_file req = Some f" "upload_form req f = Inr formData"
    "axios_post env fs (upload_relay cfg formData) = Failed m"
  then show "status (res (upload_handler cfg env req fs)) = 500"
    by (rule upload_handler_failed)
next
  assume "req_file req = Some f" "upload_form req f = Inr formData"
    "axios_post env fs (upload_relay cfg formData) = Failed m"
  then show "map_of (body (res (upload_handler cfg env req fs))) ''error'' = Some (JStr m)"
    by (rule upload_handler_failed)
next
  assume one: "req_file req = Some f" and form: "upload_form req f = Inr formData"
    and there: "existsSync fs (path f)"
    and ans: "downstream env (first_request (upload_relay cfg formData)) = Answer st loc d"
    and direct: "loc = None \<or> st < 300 \<or> 400 \<le> st"
  have "axios_post env fs (upload_relay cfg formData) = Responded st d"
    by (simp add: upload_post_present [OF form there]
        follow_direct [where net = "downstream env", OF ans direct])
  with one form show "status (res (upload_handler cfg env req fs))
      = (if 200 \<le> st \<and> st < 300 then 200 else st)"
    by (rule upload_handler_responded)
next
  assume one: "req_file req = Some f" and form: "upload_form req f = Inr formData"
    and there: "existsSync fs (path f)"
    and ans: "downstream env (first_request (upload_relay cfg formData)) = NoAnswer m"
  have post: "axios_post env fs (upload_relay cfg formData) = Failed m"
    by (simp add: upload_post_present [OF form there]
        follow_no_answer [where net = "downstream env", OF ans])
  show "status (res (upload_handler cfg env req fs)) = 500"
    by (rule upload_handler_failed(1) [OF one form post])
  show "map_of (body (res (upload_handler cfg env req fs))) ''error'' = Some (JStr m)"
    by (rule upload_handler_failed(2) [OF one form post])
next
  assume one: "req_file req = Some f" and threw: "upload_form req f = Inl m"
  show "status (res (upload_handler cfg env req fs)) = 500"
    by (rule upload_handler_threw(1) [OF one threw])
  show "map_of (body (res (upload_handler cfg env req fs))) ''error'' = Some (JStr m)"
    by (rule upload_handler_threw(2) [OF one threw])
  show "relay_calls (upload_handler cfg env req fs) = []"
    by (rule upload_handler_threw(4) [OF one threw])
next
  assume one: "req_file req = Some f"
    and five: "status (res (upload_handler cfg env req fs)) = 500"
  show "(\<exists>m'. upload_form req f = Inl m')
      \<or> (\<exists>fd m'. upload_form req f = Inr fd \<and> axios_post env fs (upload_relay cfg fd) = Failed m')
      \<or> (\<exists>fd d'. upload_form req f = Inr fd
            \<and> axios_post env fs (upload_relay cfg fd) = Responded 500 d')"
  proof (cases "upload_form req f")
    case (Inl m')
    then show ?thesis by simp
  next
    case (Inr fd)
    show ?thesis
    proof (cases "axios_post env fs (upload_relay cfg fd)")
      case (Responded st' d')
      with one Inr five have "st' = 500"
        by (simp add: upload_handler_responded(1) [OF one Inr Responded] split: if_splits)
      with Inr Responded show ?thesis by simp
    next
      case (Failed m')
      with Inr show ?thesis by simp
    qed
  qed
next
  assume form: "upload_form req f = Inr formData" and there: "existsSync fs (path f)"
    and ans: "downstream env (first_request (upload_relay cfg formData)) = Answer st (Some l) d"
    and redirect: "300 \<le> st" "st < 400"
  show "axios_post env fs (upload_relay cfg formData)
      = (case maxRedirects env of
           0 \<Rightarrow> Failed ''Maximum number of redirects exceeded''
         | Suc k \<Rightarrow> follow_redirects (downstream env) k
                      (redirected st l (first_request (upload_relay cfg formData))))"
    unfolding upload_post_present [OF form there]
    by (rule follow_moved [where net = "downstream env", OF ans redirect])
next
  assume "\<not> (plain_text (req_body req ''process_type'') \<and> plain_text (req_body req ''client_id''))"
  then show "\<exists>m'. upload_form req f = Inl m'"
    by (rule upload_form_throws)
qed

theorem relay_status_forwarded_witness:
  "existsSync [(path (sample_file ''a.pdf'' 10), \<lparr>stat_size = 10, mtimeMs = 1700000000000\<rparr>)]
        (path (sample_file ''a.pdf'' 10))
   \<and> status (res (upload_batch_handler sample_cfg (sample_env (Responded 422 (JStr ''bad pdf'')))
        \<lparr> req_file = None, req_files = [sample_file ''a.pdf'' 10], req_body = no_fields \<rparr>
        [(path (sample_file ''a.pdf'' 10), \<lparr>stat_size = 10, mtimeMs = 1700000000000\<rparr>)])) = 422
   \<and> status (res (upload_batch_handler sample_cfg (sample_env (Failed ''connect ECONNREFUSED''))
        \<lparr> req_file = None, req_files = [sample_file ''a.pdf'' 10], req_body = no_fields \<rparr>
        [(path (sample_file ''a.pdf'' 10), \<lparr>stat_size = 10, mtimeMs = 1700000000000\<rparr>)])) = 500
   \<and> status (res (upload_batch_handler sample_cfg (sample_env (Responded 200 JNull))
        \<lparr> req_file = None, req_files = [sample_file ''a.pdf'' 10], req_body = client_id_twice \<rparr>
        [(path (sample_file ''a.pdf'' 10), \<lparr>stat_size = 10, mtimeMs = 1700000000000\<rparr>)])) = 500
   \<and> status (res (upload_handler sample_cfg (sample_env (Responded 503 JNull))
        \<lparr> req_file = Some (sample_file ''a.pdf'' 10), req_files = [], req_body = no_fields \<rparr>
        [(path (sample_file ''a.pdf'' 10), \<lparr>stat_size = 10, mtimeMs = 1700000000000\<rparr>)])) = 503
   \<and> map_of (body (res (upload_handler sample_cfg (sample_env (Failed ''timeout of 120000ms exceeded''))
        \<lparr> req_file = Some (sample_file ''a.pdf'' 10), req_files = [], req_body = no_fields \<rparr>
        [(path (sample_file ''a.pdf'' 10), \<lparr>stat_size = 10, mtimeMs = 1700000000000\<rparr>)])))
       ''error'' = Some (JStr ''timeout of 120000ms exceeded'')"
proof -
  let ?a = "sample_file ''a.pdf'' 10"
  let ?fs = "[(path ?a, \<lparr>stat_size = 10, mtimeMs = 1700000000000\<rparr>)]"
  let ?batch = "\<lparr> req_file = None, req_files = [?a], req_body = no_fields \<rparr>"
  let ?twice = "\<lparr> req_file = None, req_files = [?a], req_body = client_id_twice \<rparr>"
  let ?single = "\<lparr> req_file = Some ?a, req_files = [], req_body = no_fields \<rparr>"
  let ?e422 = "sample_env (Responded 422 (JStr ''bad pdf''))"
  let ?econn = "sample_env (Failed ''connect ECONNREFUSED'')"
  let ?e200 = "sample_env (Responded 200 JNull)"
  let ?e503 = "sample_env (Responded 503 JNull)"
  let ?etime = "sample_env (Failed ''timeout of 120000ms exceeded'')"
  have there: "existsSync ?fs (path ?a)"
    by (simp add: existsSync_def)
  then have all_there: "\<forall>f\<in>set (req_files ?batch). existsSync ?fs (path f)"
    by simp
  have many: "req_files ?batch \<noteq> []" and many2: "req_files ?twice \<noteq> []"
    and one: "req_file ?single = Some ?a"
    by simp_all
  have plain: "plain_text (no_fields k)" for k
    by (simp add: no_fields_def)
  obtain fd1 where fd1: "batch_form ?e422 ?batch = Inr fd1"
    using plain_forms(1) [of ?batch ?e422] plain by auto
  obtain fd2 where fd2: "batch_form ?econn ?batch = Inr fd2"
    using plain_forms(1) [of ?batch ?econn] plain by auto
  obtain fd3 where fd3: "upload_form ?single ?a = Inr fd3"
    using plain_forms(2) [of ?single ?a] plain by auto
  have threw: "batch_form ?e200 ?twice = Inl ''Arrays are not supported.''"
    by (simp add: batch_form_def append_value_def body_or_def client_id_twice_def)
  have h1: "batch_form ?e422 ?batch = Inr fd1
      \<and> (\<forall>f\<in>set (req_files ?batch). existsSync ?fs (path f))
      \<and> downstream ?e422 (first_request (batch_relay sample_cfg fd1))
          = Answer 422 None (JStr ''bad pdf'')
      \<and> (None = None \<or> (422::nat) < 300 \<or> (400::nat) \<le> 422)"
    using fd1 all_there by (simp add: sample_downstream)
  have h2: "batch_form ?econn ?batch = Inr fd2
      \<and> (\<forall>f\<in>set (req_files ?batch). existsSync ?fs (path f))
      \<and> downstream ?econn (first_request (batch_relay sample_cfg fd2))
          = NoAnswer ''connect ECONNREFUSED''"
    using fd2 all_there by (simp add: sample_downstream)
  have h3: "upload_form ?single ?a = Inr fd3 \<and> existsSync ?fs (path ?a)
      \<and> downstream ?e503 (first_request (upload_relay sample_cfg fd3)) = Answer 503 None JNull
      \<and> (None = None \<or> (503::nat) < 300 \<or> (400::nat) \<le> 503)"
    using fd3 there by (simp add: sample_downstream)
  have h4: "upload_form ?single ?a = Inr fd3 \<and> existsSync ?fs (path ?a)
      \<and> downstream ?etime (first_request (upload_relay sample_cfg fd3))
          = NoAnswer ''timeout of 120000ms exceeded''"
    using fd3 there by (simp add: sample_downstream)
  note b1 = relay_status_forwarded [where req = ?batch and env = ?e422 and formData = fd1
      and fs = ?fs and cfg = sample_cfg and st = 422 and d = "JStr ''bad pdf''" and loc = None,
      THEN conjunct1, THEN mp, OF many, THEN conjunct2, THEN conjunct2, THEN conjunct1,
      THEN mp, OF h1]
  note b2 = relay_status_forwarded [where req = ?batch and env = ?econn and formData = fd2
      and fs = ?fs and cfg = sample_cfg and m = "''connect ECONNREFUSED''",
      THEN conjunct1, THEN mp, OF many, THEN conjunct2, THEN conjunct2, THEN conjunct2,
      THEN conjunct1, THEN mp, OF h2, THEN conjunct1]
  note b3 = relay_status_forwarded [where req = ?twice and env = ?e200
      and fs = ?fs and cfg = sample_cfg and m = "''Arrays are not supported.''",
      THEN conjunct1, THEN mp, OF many2, THEN conjunct2, THEN conjunct2, THEN conjunct2,
      THEN conjunct2, THEN conjunct1, THEN mp, OF threw, THEN conjunct1]
  note s1 = relay_status_forwarded [where req = ?single and env = ?e503 and formData = fd3
      and fs = ?fs and cfg = sample_cfg and st = 503 and d = JNull and loc = None and f = ?a,
      THEN conjunct2, THEN mp, OF one, THEN conjunct2, THEN conjunct2, THEN conjunct1,
      THEN mp, OF h3]
  note s2 = relay_status_forwarded [where req = ?single and env = ?etime and formData = fd3
      and fs = ?fs and cfg = sample_cfg and m = "''timeout of 120000ms exceeded''" and f = ?a,
      THEN conjunct2, THEN mp, OF one, THEN conjunct2, THEN conjunct2, THEN conjunct2,
      THEN conjunct1, THEN mp, OF h4, THEN conjunct2]
  from b1 have b1': "status (res (upload_batch_handler sample_cfg ?e422 ?batch ?fs)) = 422"
    by simp
  from s1 have s1': "status (res (upload_handler sample_cfg ?e503 ?single ?fs)) = 503"
    by simp
  show ?thesis
    by (rule conjI there b1' b2 b3 s1' s2)+
qed

section \<open>Multer in front of the handlers\<close>

lemma set_unlink: "set (unlink_discard fs p) = {e \<in> set fs. fst e \<noteq> p}"
proof (cases "existsSync fs p")
  case True
  then show ?thesis by (auto simp: unlink_discard_def fs_unlink_def)
next
  case False
  then have "\<forall>e\<in>set fs. fst e \<noteq> p"
    by (auto simp: existsSync_def map_of_eq_None_iff image_iff)
  with False show ?thesis by (auto simp: unlink_discard_def fs_unlink_def)
qed

lemma set_remove_uploaded:
  "set (remove_uploaded fs files) = {e \<in> set fs. fst e \<notin> path ` set files}"
  unfolding remove_uploaded_def
  by (induction files arbitrary: fs) (auto simp: set_unlink)

lemma set_fs_write: "set (fs_write fs p st) = insert (p, st) {e \<in> set fs. fst e \<noteq> p}"
  by (auto simp: fs_write_def)

lemma existsSync_fs_write: "existsSync (fs_write fs p st) q = (q = p \<or> existsSync fs q)"
  by (auto simp: fs_write_def existsSync_def map_of_filter_fst)

text \<open>Whatever makes multer abort, the error middleware answers 500; its 413 branch
  tests for a code that multer does not produce.\<close>

lemma multer_abort_status:
  "multer_files cfg field left draws i ps staged fs = Inl (err, fs') \<Longrightarrow>
   status (error_handler cfg err) = 500"
proof (induction ps arbitrary: left i staged fs)
  case Nil
  then show ?case by simp
next
  case (Cons p ps)
  then show ?case
    by (auto simp: error_handler_def fileFilter_def Let_def split: if_splits)
qed

text \<open>An aborted request leaves no file behind that was not there before.\<close>

lemma multer_abort_fs:
  "multer_files cfg field left draws i ps staged fs = Inl (err, fs') \<Longrightarrow>
   e \<in> set fs' \<Longrightarrow> e \<in> set fs \<and> fst e \<notin> path ` set staged"
proof (induction ps arbitrary: left i staged fs)
  case Nil
  then show ?case by simp
next
  case (Cons p ps)
  let ?file = "stage_part cfg (draws i) p"
  let ?fs = "fs_write fs (path ?file) \<lparr> stat_size = file_size ?file, mtimeMs = draw_mtime (draws i) \<rparr>"
  consider (unexpected) "part_fieldname p \<noteq> field \<or> left = Some 0"
    | (filtered) "\<not> (part_fieldname p \<noteq> field \<or> left = Some 0)" "fileFilter p \<noteq> None"
    | (large) "\<not> (part_fieldname p \<noteq> field \<or> left = Some 0)" "fileFilter p = None"
        "part_size p > MAX_FILE_SIZE cfg"
    | (staged) "\<not> (part_fieldname p \<noteq> field \<or> left = Some 0)" "fileFilter p = None"
        "\<not> part_size p > MAX_FILE_SIZE cfg"
    by blast
  then show ?case
  proof cases
    case unexpected
    with Cons.prems show ?thesis by (auto simp: set_remove_uploaded)
  next
    case filtered
    with Cons.prems show ?thesis by (auto simp: set_remove_uploaded)
  next
    case large
    with Cons.prems have "fs' = remove_uploaded ?fs (staged @ [?file])"
      by (simp add: Let_def)
    with Cons.prems(2) show ?thesis
      by (auto simp: set_remove_uploaded set_fs_write)
  next
    case staged
    with Cons.prems have "multer_files cfg field (map_option (\<lambda>n. n - 1) left) draws (Suc i) ps
        (staged @ [?file]) ?fs = Inl (err, fs')"
      by (simp add: Let_def)
    from Cons.IH [OF this Cons.prems(2)] show ?thesis
      by (auto simp: set_fs_write)
  qed
qed

text \<open>A part that is not a PDF, or is longer than the limit, makes multer abort.\<close>

lemma multer_aborts:
  "\<exists>p\<in>set ps. part_mimetype p \<noteq> ''application/pdf'' \<or> part_size p > MAX_FILE_SIZE cfg \<Longrightarrow>
   \<exists>err fs'. multer_files cfg field left draws i ps staged fs = Inl (err, fs')"
proof (induction ps arbitrary: left i staged fs)
  case Nil
  then show ?case by simp
next
  case (Cons p ps)
  show ?case
  proof (cases "part_mimetype p \<noteq> ''application/pdf'' \<or> part_size p > MAX_FILE_SIZE cfg")
    case True
    then show ?thesis by (auto simp: fileFilter_def Let_def)
  next
    case False
    with Cons.prems have "\<exists>p\<in>set ps. part_mimetype p \<noteq> ''application/pdf''
        \<or> part_size p > MAX_FILE_SIZE cfg"
      by auto
    from Cons.IH [OF this] False show ?thesis
      by (auto simp: fileFilter_def Let_def)
  qed
qed

text \<open>Parts that are all acceptable are all staged, in order.\<close>

lemma multer_accepts:
  assumes "\<forall>p\<in>set ps. part_fieldname p = field \<and> part_mimetype p = ''application/pdf''
             \<and> part_size p \<le> MAX_FILE_SIZE cfg"
    and "case left of None \<Rightarrow> True | Some n \<Rightarrow> length ps \<le> n"
  shows "\<exists>more fs'. multer_files cfg field left draws i ps staged fs = Inr (staged @ more, fs')
           \<and> length more = length ps"
  using assms
proof (induction ps arbitrary: left i staged fs)
  case Nil
  then show ?case by simp
next
  case (Cons p ps)
  let ?file = "stage_part cfg (draws i) p"
  let ?fs = "fs_write fs (path ?file) \<lparr> stat_size = file_size ?file, mtimeMs = draw_mtime (draws i) \<rparr>"
  from Cons.prems(2) have left: "left \<noteq> Some 0"
    and rest: "case map_option (\<lambda>n. n - 1) left of None \<Rightarrow> True | Some n \<Rightarrow> length ps \<le> n"
    by (auto split: option.splits)
  from Cons.prems(1) have p: "part_fieldname p = field" "fileFilter p = None"
      "\<not> part_size p > MAX_FILE_SIZE cfg"
    and ps: "\<forall>p\<in>set ps. part_fieldname p = field \<and> part_mimetype p = ''application/pdf''
             \<and> part_size p \<le> MAX_FILE_SIZE cfg"
    by (auto simp: fileFilter_def)
  from Cons.IH [OF ps rest, of "Suc i" "staged @ [?file]" ?fs]
  obtain more fs' where "multer_files cfg field (map_option (\<lambda>n. n - 1) left) draws (Suc i) ps
      (staged @ [?file]) ?fs = Inr ((staged @ [?file]) @ more, fs')" "length more = length ps"
    by blast
  with left p have "multer_files cfg field left draws i (p # ps) staged fs
      = Inr (staged @ (?file # more), fs') \<and> length (?file # more) = length (p # ps)"
    by (simp add: Let_def)
  then show ?case by blast
qed

lemma route_aborted:
  "multer_array cfg field maxCount draws (raw_files raw) fs = Inl (err, fs') \<Longrightarrow>
   route field maxCount handler cfg env draws raw fs
     = \<lparr> res = error_handler cfg err, fs_after = fs', relay_calls = [] \<rparr>"
  by (simp add: route_def)

lemma route_rejects:
  assumes "\<exists>p\<in>set (raw_files raw). part_mimetype p \<noteq> ''application/pdf''
             \<or> part_size p > MAX_FILE_SIZE cfg"
  shows "status (res (route field maxCount handler cfg env draws raw fs)) = 500"
    and "relay_calls (route field maxCount handler cfg env draws raw fs) = []"
    and "set (fs_after (route field maxCount handler cfg env draws raw fs)) \<subseteq> set fs"
proof -
  from multer_aborts [OF assms] obtain err fs'
    where ab: "multer_files cfg field maxCount draws 0 (raw_files raw) [] fs = Inl (err, fs')"
    by blast
  then have r: "route field maxCount handler cfg env draws raw fs
      = \<lparr> res = error_handler cfg err, fs_after = fs', relay_calls = [] \<rparr>"
    by (simp add: route_aborted multer_array_def)
  show "status (res (route field maxCount handler cfg env draws raw fs)) = 500"
    using multer_abort_status [OF ab] by (simp add: r)
  show "relay_calls (route field maxCount handler cfg env draws raw fs) = []"
    by (simp add: r)
  show "set (fs_after (route field maxCount handler cfg env draws raw fs)) \<subseteq> set fs"
    using multer_abort_fs [OF ab] by (auto simp: r)
qed

text \<open>
  C2, as stated, on an upload of one part of type \<^verbatim>\<open>text/plain\<close>: the response of the
  batch route and of the single-file route is 500, which is not a 4xx status.
\<close>

theorem non_pdf_answer_is_500:
  "status (res (upload_batch_route sample_cfg (sample_env (Responded 200 JNull)) sample_draws
       \<lparr> raw_files = [sample_part ''files'' ''notas.txt'' ''text/plain'' 10],
         raw_fields = no_fields \<rparr> [])) = 500
   \<and> status (res (upload_route sample_cfg (sample_env (Responded 200 JNull)) sample_draws
       \<lparr> raw_files = [sample_part ''file'' ''notas.txt'' ''text/plain'' 10],
         raw_fields = no_fields \<rparr> [])) = 500
   \<and> \<not> (400 \<le> status (res (upload_batch_route sample_cfg (sample_env (Responded 200 JNull))
       sample_draws
       \<lparr> raw_files = [sample_part ''files'' ''notas.txt'' ''text/plain'' 10],
         raw_fields = no_fields \<rparr> []))
        \<and> status (res (upload_batch_route sample_cfg (sample_env (Responded 200 JNull))
       sample_draws
       \<lparr> raw_files = [sample_part ''files'' ''notas.txt'' ''text/plain'' 10],
         raw_fields = no_fields \<rparr> [])) < 500)"
  by (simp add: upload_batch_route_def upload_route_def route_def multer_array_def
      fileFilter_def error_handler_def remove_uploaded_def sample_part_def)

text \<open>The first part to fail, when it fails at the filter: the error is the filter's.\<close>

lemma multer_first_filtered:
  assumes "\<forall>q\<in>set good. part_fieldname q = field \<and> part_mimetype q = ''application/pdf''
             \<and> part_size q \<le> MAX_FILE_SIZE cfg"
    and "case left of None \<Rightarrow> True | Some n \<Rightarrow> length good < n"
    and "part_fieldname p = field" "part_mimetype p \<noteq> ''application/pdf''"
  shows "\<exists>fs'. multer_files cfg field left draws i (good @ p # rest) staged fs
           = Inl (Error ''Solo PDFs permitidos'', fs')"
  using assms(1,2)
proof (induction good arbitrary: left i staged fs)
  case Nil
  then have "left \<noteq> Some 0"
    by (auto split: option.splits)
  with assms(3,4) show ?case
    by (simp add: fileFilter_def)
next
  case (Cons q good)
  let ?file = "stage_part cfg (draws i) q"
  let ?fs = "fs_write fs (path ?file) \<lparr> stat_size = file_size ?file, mtimeMs = draw_mtime (draws i) \<rparr>"
  from Cons.prems(2) have left: "left \<noteq> Some 0"
    and fewer: "case map_option (\<lambda>n. n - 1) left of None \<Rightarrow> True | Some n \<Rightarrow> length good < n"
    by (auto split: option.splits)
  from Cons.prems(1) have q: "part_fieldname q = field" "fileFilter q = None"
      "\<not> part_size q > MAX_FILE_SIZE cfg"
    and good: "\<forall>q\<in>set good. part_fieldname q = field \<and> part_mimetype q = ''application/pdf''
             \<and> part_size q \<le> MAX_FILE_SIZE cfg"
    by (auto simp: fileFilter_def)
  from Cons.IH [OF good fewer, of "Suc i" "staged @ [?file]" ?fs]
  obtain fs' where "multer_files cfg field (map_option (\<lambda>n. n - 1) left) draws (Suc i)
      (good @ p # rest) (staged @ [?file]) ?fs = Inl (Error ''Solo PDFs permitidos'', fs')"
    by blast
  with left q show ?case
    by (simp add: Let_def)
qed

lemma route_first_filtered:
  assumes "raw_files raw = good @ p # rest"
    and "\<forall>q\<in>set good. part_fieldname q = field \<and> part_mimetype q = ''application/pdf''
             \<and> part_size q \<le> MAX_FILE_SIZE cfg"
    and "case maxCount of None \<Rightarrow> True | Some n \<Rightarrow> length good < n"
    and "part_fieldname p = field" "part_mimetype p \<noteq> ''application/pdf''"
  shows "res (route field maxCount handler cfg env draws raw fs)
           = \<lparr> status = 500,
               body = [(''success'', JBool False), (''error'', JStr ''Solo PDFs permitidos'')] \<rparr>"
proof -
  from multer_first_filtered [OF assms(2-5), of draws 0 rest "[]" fs]
  obtain fs' where "multer_array cfg field maxCount draws (raw_files raw) fs
      = Inl (Error ''Solo PDFs permitidos'', fs')"
    by (auto simp: multer_array_def assms(1))
  then show ?thesis
    by (simp add: route_aborted error_handler_def)
qed

text \<open>
  C2, amended. An upload with a file part whose content type, as multer reports it in
  \<^verbatim>\<open>file.mimetype\<close>, is not \<^verbatim>\<open>application/pdf\<close> is answered with status 500, the
  handler does not run (no relay call), and every file in the file system afterwards
  was there before with the same metadata; this on the batch route and on the
  single-file route. When that part is the first to fail (the parts before it are
  acceptable, and it comes in the expected field within the allowed count), the body is
  \<^verbatim>\<open>{success: false, error: 'Solo PDFs permitidos'}\<close>, on both routes.
\<close>

theorem non_pdf_rejected:
  "((\<exists>p\<in>set (raw_files raw). part_mimetype p \<noteq> ''application/pdf'') \<longrightarrow>
      status (res (upload_batch_route cfg env draws raw fs)) = 500
      \<and> relay_calls (upload_batch_route cfg env draws raw fs) = []
      \<and> set (fs_after (upload_batch_route cfg env draws raw fs)) \<subseteq> set fs
      \<and> status (res (upload_route cfg env draws raw fs)) = 500
      \<and> relay_calls (upload_route cfg env draws raw fs) = []
      \<and> set (fs_after (upload_route cfg env draws raw fs)) \<subseteq> set fs)
   \<and> (raw_files raw = good @ p # rest \<and> length good < 10
        \<and> (\<forall>q\<in>set good. part_fieldname q = ''files''
              \<and> part_mimetype q = ''application/pdf'' \<and> part_size q \<le> MAX_FILE_SIZE cfg)
        \<and> part_fieldname p = ''files'' \<and> part_mimetype p \<noteq> ''application/pdf'' \<longrightarrow>
      res (upload_batch_route cfg env draws raw fs)
        = \<lparr> status = 500,
            body = [(''success'', JBool False), (''error'', JStr ''Solo PDFs permitidos'')] \<rparr>)
   \<and> (raw_files raw = good @ p # rest
        \<and> (\<forall>q\<in>set good. part_fieldname q = ''file''
              \<and> part_mimetype q = ''application/pdf'' \<and> part_size q \<le> MAX_FILE_SIZE cfg)
        \<and> part_fieldname p = ''file'' \<and> part_mimetype p \<noteq> ''application/pdf'' \<longrightarrow>
      res (upload_route cfg env draws raw fs)
        = \<lparr> status = 500,
            body = [(''success'', JBool False), (''error'', JStr ''Solo PDFs permitidos'')] \<rparr>)"
proof (intro conjI impI; (elim conjE)?)
  assume "\<exists>p\<in>set (raw_files raw). part_mimetype p \<noteq> ''application/pdf''"
  then have bad: "\<exists>p\<in>set (raw_files raw). part_mimetype p \<noteq> ''application/pdf''
      \<or> part_size p > MAX_FILE_SIZE cfg"
    by blast
  show "status (res (upload_batch_route cfg env draws raw fs)) = 500"
    unfolding upload_batch_route_def using bad by (rule route_rejects)
  show "relay_calls (upload_batch_route cfg env draws raw fs) = []"
    unfolding upload_batch_route_def using bad by (rule route_rejects)
  show "set (fs_after (upload_batch_route cfg env draws raw fs)) \<subseteq> set fs"
    unfolding upload_batch_route_def using bad by (rule route_rejects)
  show "status (res (upload_route cfg env draws raw fs)) = 500"
    unfolding upload_route_def using bad by (rule route_rejects)
  show "relay_calls (upload_route cfg env draws raw fs) = []"
    unfolding upload_route_def using bad by (rule route_rejects)
  show "set (fs_after (upload_route cfg env draws raw fs)) \<subseteq> set fs"
    unfolding upload_route_def using bad by (rule route_rejects)
next
  assume parts: "raw_files raw = good @ p # rest" and few: "length good < 10"
    and good: "\<forall>q\<in>set good. part_fieldname q = ''files''
        \<and> part_mimetype q = ''application/pdf'' \<and> part_size q \<le> MAX_FILE_SIZE cfg"
    and p: "part_fieldname p = ''files''" "part_mimetype p \<noteq> ''application/pdf''"
  from few have count: "case Some (10::nat) of None \<Rightarrow> True | Some n \<Rightarrow> length good < n"
    by simp
  show "res (upload_batch_route cfg env draws raw fs)
      = \<lparr> status = 500,
          body = [(''success'', JBool False), (''error'', JStr ''Solo PDFs permitidos'')] \<rparr>"
    unfolding upload_batch_route_def by (rule route_first_filtered [OF parts good count p])
next
  assume parts: "raw_files raw = good @ p # rest"
    and good: "\<forall>q\<in>set good. part_fieldname q = ''file''
        \<and> part_mimetype q = ''application/pdf'' \<and> part_size q \<le> MAX_FILE_SIZE cfg"
    and p: "part_fieldname p = ''file''" "part_mimetype p \<noteq> ''application/pdf''"
  have count: "case None :: nat option of None \<Rightarrow> True | Some n \<Rightarrow> length good < n"
    by simp
  show "res (upload_route cfg env draws raw fs)
      = \<lparr> status = 500,
          body = [(''success'', JBool False), (''error'', JStr ''Solo PDFs permitidos'')] \<rparr>"
    unfolding upload_route_def by (rule route_first_filtered [OF parts good count p])
qed

theorem non_pdf_rejected_witness:
  "part_mimetype (sample_part ''files'' ''notas.txt'' ''text/plain'' 10) \<noteq> ''application/pdf''
   \<and> res (upload_batch_route sample_cfg (sample_env (Responded 200 JNull)) sample_draws
        \<lparr> raw_files = [sample_part ''files'' ''a.pdf'' ''application/pdf'' 10,
                        sample_part ''files'' ''notas.txt'' ''text/plain'' 10],
          raw_fields = no_fields \<rparr>
        [(''uploads/viejo.pdf'', \<lparr>stat_size = 5, mtimeMs = 7\<rparr>)])
       = \<lparr> status = 500,
           body = [(''success'', JBool False), (''error'', JStr ''Solo PDFs permitidos'')] \<rparr>
   \<and> relay_calls (upload_batch_route sample_cfg (sample_env (Responded 200 JNull)) sample_draws
        \<lparr> raw_files = [sample_part ''files'' ''a.pdf'' ''application/pdf'' 10,
                        sample_part ''files'' ''notas.txt'' ''text/plain'' 10],
          raw_fields = no_fields \<rparr>
        [(''uploads/viejo.pdf'', \<lparr>stat_size = 5, mtimeMs = 7\<rparr>)]) = []
   \<and> set (fs_after (upload_batch_route sample_cfg (sample_env (Responded 200 JNull)) sample_draws
        \<lparr> raw_files = [sample_part ''files'' ''a.pdf'' ''application/pdf'' 10,
                        sample_part ''files'' ''notas.txt'' ''text/plain'' 10],
          raw_fields = no_fields \<rparr>
        [(''uploads/viejo.pdf'', \<lparr>stat_size = 5, mtimeMs = 7\<rparr>)]))
       \<subseteq> set [(''uploads/viejo.pdf'', \<lparr>stat_size = 5, mtimeMs = 7\<rparr>)]
   \<and> res (upload_route sample_cfg (sample_env (Responded 200 JNull)) sample_draws
        \<lparr> raw_files = [sample_part ''file'' ''notas.txt'' ''text/plain'' 10],
          raw_fields = no_fields \<rparr>
        [(''uploads/viejo.pdf'', \<lparr>stat_size = 5, mtimeMs = 7\<rparr>)])
       = \<lparr> status = 500,
           body = [(''success'', JBool False), (''error'', JStr ''Solo PDFs permitidos'')] \<rparr>"
proof -
  let ?pdf = "sample_part ''files'' ''a.pdf'' ''application/pdf'' 10"
  let ?plain = "sample_part ''files'' ''notas.txt'' ''text/plain'' 10"
  let ?plain1 = "sample_part ''file'' ''notas.txt'' ''text/plain'' 10"
  let ?raw = "\<lparr> raw_files = [?pdf, ?plain], raw_fields = no_fields \<rparr>"
  let ?raw1 = "\<lparr> raw_files = [?plain1], raw_fields = no_fields \<rparr>"
  let ?env = "sample_env (Responded 200 JNull)"
  let ?old = "[(''uploads/viejo.pdf'', \<lparr>stat_size = 5, mtimeMs = 7\<rparr>)]"
  have plain: "part_mimetype ?plain \<noteq> ''application/pdf''"
    by (simp add: sample_part_def)
  then have bad: "\<exists>p\<in>set (raw_files ?raw). part_mimetype p \<noteq> ''application/pdf''"
    by simp
  have h2: "raw_files ?raw = [?pdf] @ ?plain # [] \<and> length [?pdf] < 10
      \<and> (\<forall>q\<in>set [?pdf]. part_fieldname q = ''files''
            \<and> part_mimetype q = ''application/pdf'' \<and> part_size q \<le> MAX_FILE_SIZE sample_cfg)
      \<and> part_fieldname ?plain = ''files'' \<and> part_mimetype ?plain \<noteq> ''application/pdf''"
    by (simp add: sample_part_def sample_cfg_def)
  have h3: "raw_files ?raw1 = [] @ ?plain1 # []
      \<and> (\<forall>q\<in>set []. part_fieldname q = ''file''
            \<and> part_mimetype q = ''application/pdf'' \<and> part_size q \<le> MAX_FILE_SIZE sample_cfg)
      \<and> part_fieldname ?plain1 = ''file'' \<and> part_mimetype ?plain1 \<noteq> ''application/pdf''"
    by (simp add: sample_part_def)
  note rej = non_pdf_rejected [where raw = ?raw and cfg = sample_cfg and env = ?env
      and draws = sample_draws and fs = ?old, THEN conjunct1, THEN mp, OF bad]
  note first = non_pdf_rejected [where raw = ?raw and cfg = sample_cfg and env = ?env
      and draws = sample_draws and fs = ?old and good = "[?pdf]" and p = ?plain and rest = "[]",
      THEN conjunct2, THEN conjunct1, THEN mp, OF h2]
  note single = non_pdf_rejected [where raw = ?raw1 and cfg = sample_cfg and env = ?env
      and draws = sample_draws and fs = ?old and good = "[]" and p = ?plain1 and rest = "[]",
      THEN conjunct2, THEN conjunct2, THEN mp, OF h3]
  show ?thesis
    by (rule conjI plain first rej [THEN conjunct2, THEN conjunct1]
        rej [THEN conjunct2, THEN conjunct2, THEN conjunct1] single)+
qed

section \<open>Cleanup after the relay\<close>

lemma set_unlink_all: "set (unlink_all fs ps) = {e \<in> set fs. fst e \<notin> set ps}"
  unfolding unlink_all_def by (induction ps arbitrary: fs) (auto simp: set_unlink)

lemma unlink_existing_all: "unlink_existing fs ps = unlink_all fs ps"
  unfolding unlink_existing_def unlink_all_def
proof (induction ps arbitrary: fs)
  case Nil
  then show ?case by simp
next
  case (Cons p ps)
  have "(if existsSync fs p then unlink_discard fs p else fs) = unlink_discard fs p"
    by (simp add: unlink_absent)
  with Cons show ?case by simp
qed

lemma multer_keeps_staged:
  "multer_files cfg field left draws i ps staged fs = Inr (files, fs') \<Longrightarrow>
   set staged \<subseteq> set files"
proof (induction ps arbitrary: left i staged fs)
  case Nil
  then show ?case by simp
next
  case (Cons p ps)
  let ?file = "stage_part cfg (draws i) p"
  let ?fs = "fs_write fs (path ?file) \<lparr> stat_size = file_size ?file, mtimeMs = draw_mtime (draws i) \<rparr>"
  from Cons.prems have "multer_files cfg field (map_option (\<lambda>n. n - 1) left) draws (Suc i) ps
      (staged @ [?file]) ?fs = Inr (files, fs')"
    by (simp add: Let_def split: if_splits option.splits)
  from Cons.IH [OF this] show ?case by simp
qed

text \<open>What multer leaves in the file system beside what was there is what it staged.\<close>

lemma multer_staged_fs:
  "multer_files cfg field left draws i ps staged fs = Inr (files, fs') \<Longrightarrow>
   e \<in> set fs' \<Longrightarrow> e \<in> set fs \<or> fst e \<in> path ` set files"
proof (induction ps arbitrary: left i staged fs)
  case Nil
  then show ?case by simp
next
  case (Cons p ps)
  let ?file = "stage_part cfg (draws i) p"
  let ?fs = "fs_write fs (path ?file) \<lparr> stat_size = file_size ?file, mtimeMs = draw_mtime (draws i) \<rparr>"
  from Cons.prems(1) have rec: "multer_files cfg field (map_option (\<lambda>n. n - 1) left) draws (Suc i) ps
      (staged @ [?file]) ?fs = Inr (files, fs')"
    by (simp add: Let_def split: if_splits option.splits)
  from multer_keeps_staged [OF rec] have "?file \<in> set files"
    by simp
  then have "path ?file \<in> path ` set files"
    by (rule imageI)
  with Cons.IH [OF rec Cons.prems(2)] show ?case
    by (auto simp: set_fs_write)
qed

lemma multer_staged_exist:
  "multer_files cfg field left draws i ps staged fs = Inr (files, fs') \<Longrightarrow>
   \<forall>f\<in>set staged. existsSync fs (path f) \<Longrightarrow> \<forall>f\<in>set files. existsSync fs' (path f)"
proof (induction ps arbitrary: left i staged fs)
  case Nil
  then show ?case by simp
next
  case (Cons p ps)
  let ?file = "stage_part cfg (draws i) p"
  let ?fs = "fs_write fs (path ?file) \<lparr> stat_size = file_size ?file, mtimeMs = draw_mtime (draws i) \<rparr>"
  from Cons.prems(1) have rec: "multer_files cfg field (map_option (\<lambda>n. n - 1) left) draws (Suc i) ps
      (staged @ [?file]) ?fs = Inr (files, fs')"
    by (simp add: Let_def split: if_splits option.splits)
  from Cons.prems(2) have "\<forall>f\<in>set (staged @ [?file]). existsSync ?fs (path f)"
    by (auto simp: existsSync_fs_write)
  from Cons.IH [OF rec this] show ?case .
qed

text \<open>What the batch handler leaves, on every branch past the check for files; and whether
  it has called \<^verbatim>\<open>axios.post\<close>.\<close>

lemma batch_handler_after:
  assumes "req_files req \<noteq> []"
  shows "fs_after (upload_batch_handler cfg env req fs) = unlink_all fs (map path (req_files req))"
proof (cases "batch_form env req")
  case (Inl m)
  with assms show ?thesis
    by (simp add: batch_handler_threw unlink_existing_all)
next
  case (Inr formData)
  show ?thesis
  proof (cases "axios_post env fs (batch_relay cfg formData)")
    case (Responded st d)
    with assms Inr show ?thesis by (simp add: batch_handler_responded)
  next
    case (Failed m)
    with assms Inr show ?thesis by (simp add: batch_handler_failed unlink_existing_all)
  qed
qed

lemma batch_handler_called:
  assumes "req_files req \<noteq> []" "batch_form env req = Inr formData"
  shows "relay_calls (upload_batch_handler cfg env req fs) = [batch_relay cfg formData]"
proof (cases "axios_post env fs (batch_relay cfg formData)")
  case (Responded st d)
  with assms show ?thesis by (rule batch_handler_responded)
next
  case (Failed m)
  with assms show ?thesis by (rule batch_handler_failed)
qed

lemma upload_handler_called:
  assumes "req_file req = Some f" "upload_form req f = Inr formData"
  shows "relay_calls (upload_handler cfg env req fs) = [upload_relay cfg formData]"
proof (cases "axios_post env fs (upload_relay cfg formData)")
  case (Responded st d)
  with assms show ?thesis by (rule upload_handler_responded)
next
  case (Failed m)
  with assms show ?thesis by (rule upload_handler_failed)
qed

lemma upload_handler_after:
  assumes "req_file req = Some g" "path g \<noteq> []"
  shows "\<not> existsSync (fs_after (upload_handler cfg env req fs)) (path g)"
proof (cases "upload_form req g")
  case (Inl m)
  with assms show ?thesis
    by (simp add: upload_handler_threw existsSync_unlink)
next
  case (Inr formData)
  show ?thesis
  proof (cases "axios_post env fs (upload_relay cfg formData)")
    case (Responded st d)
    with assms Inr show ?thesis
      by (simp add: upload_handler_responded existsSync_unlink)
  next
    case (Failed m)
    with assms Inr show ?thesis
      by (simp add: upload_handler_failed existsSync_unlink)
  qed
qed

text \<open>A batch of acceptable parts passes multer: the handler runs on the staged files,
  which are all in place.\<close>

lemma batch_route_accepted:
  assumes "length (raw_files raw) \<le> 10"
    and "\<forall>p\<in>set (raw_files raw). part_fieldname p = ''files''
           \<and> part_mimetype p = ''application/pdf'' \<and> part_size p \<le> MAX_FILE_SIZE cfg"
  shows "\<exists>staged fs'.
           upload_batch_route cfg env draws raw fs
             = upload_batch_handler cfg env
                 \<lparr> req_file = None, req_files = staged, req_body = raw_fields raw \<rparr> fs'
           \<and> length staged = length (raw_files raw)
           \<and> (\<forall>f\<in>set staged. existsSync fs' (path f))"
proof -
  have "case Some (10::nat) of None \<Rightarrow> True | Some n \<Rightarrow> length (raw_files raw) \<le> n"
    using assms(1) by simp
  from multer_accepts [OF assms(2) this, of draws 0 "[]" fs]
  obtain staged fs' where m: "multer_files cfg ''files'' (Some 10) draws 0 (raw_files raw) [] fs
      = Inr (staged, fs')" and n: "length staged = length (raw_files raw)"
    by auto
  from multer_staged_exist [OF m] have e: "\<forall>f\<in>set staged. existsSync fs' (path f)"
    by simp
  from m have "upload_batch_route cfg env draws raw fs
      = upload_batch_handler cfg env
          \<lparr> req_file = None, req_files = staged, req_body = raw_fields raw \<rparr> fs'"
    by (simp add: upload_batch_route_def route_def multer_array_def)
  with n e show ?thesis by blast
qed

lemma batch_route_relayed:
  assumes "relay_calls (upload_batch_route cfg env draws raw fs) \<noteq> []"
  shows "set (fs_after (upload_batch_route cfg env draws raw fs)) \<subseteq> set fs"
proof (cases "multer_array cfg ''files'' (Some 10) draws (raw_files raw) fs")
  case (Inl a)
  with assms show ?thesis
    by (simp add: upload_batch_route_def route_def split: prod.splits)
next
  case (Inr b)
  obtain files fs' where b: "b = (files, fs')" by (cases b)
  let ?req = "\<lparr> req_file = None, req_files = files, req_body = raw_fields raw \<rparr>"
  have r: "upload_batch_route cfg env draws raw fs = upload_batch_handler cfg env ?req fs'"
    using Inr b by (simp add: upload_batch_route_def route_def)
  from assms have ne: "req_files ?req \<noteq> []"
    unfolding r using batch_handler_no_files(1) [of ?req cfg env fs'] by auto
  have after: "fs_after (upload_batch_handler cfg env ?req fs') = unlink_all fs' (map path files)"
    using batch_handler_after [OF ne] by simp
  from Inr b have "multer_files cfg ''files'' (Some 10) draws 0 (raw_files raw) [] fs
      = Inr (files, fs')"
    by (simp add: multer_array_def)
  from multer_staged_fs [OF this] show ?thesis
    unfolding r after by (auto simp: set_unlink_all)
qed

text \<open>
  C5. Whenever the relay request has been sent, whatever came of it (an answer inside or
  outside 200-299, or no answer and the \<^verbatim>\<open>catch\<close> block), none of the files of the
  request (each has the path the storage gave it, which is not empty) is in the file
  system when the handler is done, in the batch handler and in the single-file handler.
  For a whole batch request, from the upload on: every file in the file system
  afterwards was there before the request.
\<close>

theorem staged_files_deleted_after_relay:
  "(relay_calls (upload_batch_handler cfg env req fs) \<noteq> [] \<and> f \<in> set (req_files req)
      \<longrightarrow> \<not> existsSync (fs_after (upload_batch_handler cfg env req fs)) (path f))
   \<and> (relay_calls (upload_handler cfg env req fs) \<noteq> [] \<and> req_file req = Some g \<and> path g \<noteq> []
      \<longrightarrow> \<not> existsSync (fs_after (upload_handler cfg env req fs)) (path g))
   \<and> (relay_calls (upload_batch_route cfg env draws raw fs) \<noteq> []
      \<longrightarrow> set (fs_after (upload_batch_route cfg env draws raw fs)) \<subseteq> set fs)"
proof (intro conjI impI; (elim conjE)?)
  assume f: "f \<in> set (req_files req)"
  then have ne: "req_files req \<noteq> []" by auto
  from f show "\<not> existsSync (fs_after (upload_batch_handler cfg env req fs)) (path f)"
    by (simp add: batch_handler_after [OF ne] existsSync_unlink_all)
next
  assume "req_file req = Some g" "path g \<noteq> []"
  then show "\<not> existsSync (fs_after (upload_handler cfg env req fs)) (path g)"
    by (rule upload_handler_after)
next
  assume "relay_calls (upload_batch_route cfg env draws raw fs) \<noteq> []"
  then show "set (fs_after (upload_batch_route cfg env draws raw fs)) \<subseteq> set fs"
    by (rule batch_route_relayed)
qed

theorem staged_files_deleted_after_relay_witness:
  "sample_file ''a.pdf'' 10 \<in> set [sample_file ''a.pdf'' 10, sample_file ''b.pdf'' 20]
   \<and> existsSync [(path (sample_file ''a.pdf'' 10), \<lparr>stat_size = 10, mtimeMs = 1700000000000\<rparr>)]
        (path (sample_file ''a.pdf'' 10))
   \<and> \<not> existsSync (fs_after (upload_batch_handler sample_cfg
          (sample_env (Failed ''connect ECONNREFUSED''))
          \<lparr> req_file = None, req_files = [sample_file ''a.pdf'' 10, sample_file ''b.pdf'' 20],
            req_body = no_fields \<rparr>
          [(path (sample_file ''a.pdf'' 10), \<lparr>stat_size = 10, mtimeMs = 1700000000000\<rparr>)]))
        (path (sample_file ''a.pdf'' 10))
   \<and> \<not> existsSync (fs_after (upload_handler sample_cfg (sample_env (Responded 502 JNull))
          \<lparr> req_file = Some (sample_file ''a.pdf'' 10), req_files = [], req_body = no_fields \<rparr>
          [(path (sample_file ''a.pdf'' 10), \<lparr>stat_size = 10, mtimeMs = 1700000000000\<rparr>)]))
        (path (sample_file ''a.pdf'' 10))
   \<and> set (fs_after (upload_batch_route sample_cfg (sample_env (Responded 502 JNull)) sample_draws
          \<lparr> raw_files = [sample_part ''files'' ''a.pdf'' ''application/pdf'' 10],
            raw_fields = no_fields \<rparr>
          [(''uploads/viejo.pdf'', \<lparr>stat_size = 5, mtimeMs = 7\<rparr>)]))
       \<subseteq> set [(''uploads/viejo.pdf'', \<lparr>stat_size = 5, mtimeMs = 7\<rparr>)]"
proof -
  let ?a = "sample_file ''a.pdf'' 10"
  let ?fs = "[(path ?a, \<lparr>stat_size = 10, mtimeMs = 1700000000000\<rparr>)]"
  let ?batch = "\<lparr> req_file = None, req_files = [?a, sample_file ''b.pdf'' 20],
                  req_body = no_fields \<rparr>"
  let ?single = "\<lparr> req_file = Some ?a, req_files = [], req_body = no_fields \<rparr>"
  let ?raw = "\<lparr> raw_files = [sample_part ''files'' ''a.pdf'' ''application/pdf'' 10],
                 raw_fields = no_fields \<rparr>"
  let ?old = "[(''uploads/viejo.pdf'', \<lparr>stat_size = 5, mtimeMs = 7\<rparr>)]"
  let ?down = "sample_env (Failed ''connect ECONNREFUSED'')"
  let ?bad = "sample_env (Responded 502 JNull)"
  have plain: "plain_text (no_fields k)" for k
    by (simp add: no_fields_def)
  have there: "existsSync ?fs (path ?a)"
    by (simp add: existsSync_def)
  have named: "path ?a \<noteq> []"
    by (simp add: sample_file_def stage_part_def path_join_def Let_def)
  have member: "?a \<in> set [?a, sample_file ''b.pdf'' 20]"
    by simp
  obtain fd1 where fd1: "batch_form ?down ?batch = Inr fd1"
    using plain_forms(1) [of ?batch ?down] plain by auto
  have many: "req_files ?batch \<noteq> []"
    by simp
  have sent_batch: "relay_calls (upload_batch_handler sample_cfg ?down ?batch ?fs) \<noteq> []"
    by (simp add: batch_handler_called [OF many fd1])
  obtain fd2 where fd2: "upload_form ?single ?a = Inr fd2"
    using plain_forms(2) [of ?single ?a] plain by auto
  have one: "req_file ?single = Some ?a"
    by simp
  have sent_single: "relay_calls (upload_handler sample_cfg ?bad ?single ?fs) \<noteq> []"
    by (simp add: upload_handler_called [OF one fd2])
  have few: "length (raw_files ?raw) \<le> 10"
    by simp
  have good: "\<forall>p\<in>set (raw_files ?raw). part_fieldname p = ''files''
      \<and> part_mimetype p = ''application/pdf'' \<and> part_size p \<le> MAX_FILE_SIZE sample_cfg"
    by (simp add: sample_part_def sample_cfg_def)
  from batch_route_accepted [OF few good, of ?bad sample_draws ?old]
  obtain staged fs' where r: "upload_batch_route sample_cfg ?bad sample_draws ?raw ?old
      = upload_batch_handler sample_cfg ?bad
          \<lparr> req_file = None, req_files = staged, req_body = raw_fields ?raw \<rparr> fs'"
    and n: "length staged = length (raw_files ?raw)"
    by blast
  let ?req = "\<lparr> req_file = None, req_files = staged, req_body = raw_fields ?raw \<rparr>"
  from n have some: "req_files ?req \<noteq> []"
    by auto
  obtain fd3 where fd3: "batch_form ?bad ?req = Inr fd3"
    using plain_forms(1) [of ?req ?bad] plain by auto
  have sent_route: "relay_calls (upload_batch_route sample_cfg ?bad sample_draws ?raw ?old) \<noteq> []"
    unfolding r using batch_handler_called [OF some fd3, of sample_cfg fs'] by simp
  have h1: "relay_calls (upload_batch_handler sample_cfg ?down ?batch ?fs) \<noteq> []
      \<and> ?a \<in> set (req_files ?batch)"
    using sent_batch by simp
  have h2: "relay_calls (upload_handler sample_cfg ?bad ?single ?fs) \<noteq> []
      \<and> req_file ?single = Some ?a \<and> path ?a \<noteq> []"
    using sent_single named by simp
  note c1 = staged_files_deleted_after_relay [of sample_cfg ?down ?batch ?fs ?a,
      THEN conjunct1, THEN mp, OF h1]
  note c2 = staged_files_deleted_after_relay [of sample_cfg ?bad ?single ?fs _ ?a,
      THEN conjunct2, THEN conjunct1, THEN mp, OF h2]
  note c3 = staged_files_deleted_after_relay [of sample_cfg ?bad _ ?old _ _ sample_draws ?raw,
      THEN conjunct2, THEN conjunct2, THEN mp, OF sent_route]
  show ?thesis
    by (rule conjI member there c1 c2 c3)+
qed

section \<open>The size limit and the single-file route\<close>

text \<open>
  C3, at an upload of one PDF of 90 MiB under the default limit of 80 MiB: multer
  aborts with the code \<^verbatim>\<open>LIMIT_FILE_SIZE\<close>, the error middleware compares the code
  with \<^verbatim>\<open>FILE_TOO_LARGE\<close> and falls through to its last line, so the answer is 500 and
  not 413. No relay request is made and no file is left. The 413 branch is there.
\<close>

theorem oversized_upload_answer_is_500:
  "upload_batch_route sample_cfg (sample_env (Responded 200 JNull)) sample_draws
     \<lparr> raw_files = [sample_part ''files'' ''grande.pdf'' ''application/pdf'' (90 * 1024 * 1024)],
       raw_fields = no_fields \<rparr> []
     = \<lparr> res = \<lparr> status = 500,
                 body = [(''success'', JBool False), (''error'', JStr ''File too large'')] \<rparr>,
         fs_after = [], relay_calls = [] \<rparr>
   \<and> upload_route sample_cfg (sample_env (Responded 200 JNull)) sample_draws
     \<lparr> raw_files = [sample_part ''file'' ''grande.pdf'' ''application/pdf'' (90 * 1024 * 1024)],
       raw_fields = no_fields \<rparr> []
     = \<lparr> res = \<lparr> status = 500,
                 body = [(''success'', JBool False), (''error'', JStr ''File too large'')] \<rparr>,
         fs_after = [], relay_calls = [] \<rparr>
   \<and> MAX_FILE_SIZE sample_cfg = 80 * 1024 * 1024
   \<and> status (error_handler sample_cfg (MulterError ''FILE_TOO_LARGE'' ''File too large'')) = 413"
  by (simp add: upload_batch_route_def upload_route_def route_def multer_array_def
      fileFilter_def stage_part_def error_handler_def remove_uploaded_def unlink_discard_def
      fs_unlink_def existsSync_def fs_write_def sample_cfg_def sample_part_def Let_def)

text \<open>The single-file route never reaches the relay: \<^verbatim>\<open>upload.array\<close> fills
  \<^verbatim>\<open>req.files\<close>, the handler reads \<^verbatim>\<open>req.file\<close>.\<close>

lemma upload_route_never_relays:
  "relay_calls (upload_route cfg env draws raw fs) = []
   \<and> status (res (upload_route cfg env draws raw fs)) \<in> {400, 500}"
proof (cases "multer_array cfg ''file'' None draws (raw_files raw) fs")
  case (Inl a)
  obtain err fs' where a: "a = (err, fs')" by (cases a)
  with Inl have "status (error_handler cfg err) = 500"
    using multer_abort_status by (simp add: multer_array_def)
  with Inl a show ?thesis
    by (simp add: upload_route_def route_def)
next
  case (Inr b)
  obtain files fs' where "b = (files, fs')" by (cases b)
  with Inr show ?thesis
    by (simp add: upload_route_def route_def upload_handler_def)
qed

lemma toFixed2_MB_two_MiB: "toFixed2_MB (2 * 1024 * 1024) = ''2.00''"
  by (simp add: toFixed2_MB_def two_digits_def string_of_nat.simps digit_char_def)

text \<open>The body of the single-file handler, had it been given \<^verbatim>\<open>req.file\<close>, the staged
  file in place and no text field: one relay call with the default fields, and on an
  answer of 200 a response of 200 with the size in MB and a truthy job id.\<close>

lemma upload_handler_with_file:
  assumes "req_file req = Some f" "req_body req = no_fields" "existsSync fs (path f)"
  shows "\<exists>rq. relay_calls (upload_handler cfg env req fs) = [rq]
           \<and> field_values ''process_type'' (rq_form rq) = [''GG'']
           \<and> field_values ''client_id'' (rq_form rq) = [''INTELEC_SL'']
           \<and> (\<forall>loc d. downstream env (first_request rq) = Answer 200 loc d \<longrightarrow>
                 status (res (upload_handler cfg env req fs)) = 200
                 \<and> map_of (body (res (upload_handler cfg env req fs))) ''fileSizeMB''
                     = Some (JStr (toFixed2_MB (file_size f)))
                 \<and> (\<exists>j. map_of (body (res (upload_handler cfg env req fs))) ''jobId'' = Some j
                        \<and> truthy j))"
proof -
  let ?form = "[FilePart ''file'' (path f) (originalname f) ''application/pdf'',
                Field ''process_type'' ''GG'', Field ''client_id'' ''INTELEC_SL'',
                Field ''uploaded_by'' ''backend-api'',
                Field ''file_size_mb'' (toFixed2_MB (file_size f))]"
  let ?rq = "upload_relay cfg ?form"
  have form: "upload_form req f = Inr ?form"
    by (simp add: upload_form_def append_value_def body_or_def assms(2) no_fields_def)
  have calls: "relay_calls (upload_handler cfg env req fs) = [?rq]"
    by (rule upload_handler_called [OF assms(1) form])
  have fields: "field_values ''process_type'' (rq_form ?rq) = [''GG'']"
    "field_values ''client_id'' (rq_form ?rq) = [''INTELEC_SL'']"
    by (simp_all add: upload_relay_def)
  have ok: "\<forall>loc d. downstream env (first_request ?rq) = Answer 200 loc d \<longrightarrow>
      status (res (upload_handler cfg env req fs)) = 200
      \<and> map_of (body (res (upload_handler cfg env req fs))) ''fileSizeMB''
          = Some (JStr (toFixed2_MB (file_size f)))
      \<and> (\<exists>j. map_of (body (res (upload_handler cfg env req fs))) ''jobId'' = Some j \<and> truthy j)"
  proof (intro allI impI)
    fix loc d
    assume ans: "downstream env (first_request ?rq) = Answer 200 loc d"
    have post: "axios_post env fs ?rq = Responded 200 d"
      by (simp add: upload_post_present [OF form assms(3)]
          follow_direct [where net = "downstream env", OF ans])
    have "truthy (js_or (opt_prop d ''jobId'') (JStr (''job_'' @ string_of_nat (now_job env))))"
      by (simp add: js_or_def)
    with assms(1) form post
    show "status (res (upload_handler cfg env req fs)) = 200
      \<and> map_of (body (res (upload_handler cfg env req fs))) ''fileSizeMB''
          = Some (JStr (toFixed2_MB (file_size f)))
      \<and> (\<exists>j. map_of (body (res (upload_handler cfg env req fs))) ''jobId'' = Some j \<and> truthy j)"
      by (simp add: upload_handler_def Let_def)
  qed
  from calls fields ok show ?thesis by blast
qed

text \<open>
  C1, at an upload of one PDF of 2 MiB in a part named \<^verbatim>\<open>file\<close>, with no other
  field, the downstream ready to answer 200: the route of \<^verbatim>\<open>src/server.js\<close> answers 400
  \<^verbatim>\<open>No file found\<close>, makes no relay call, and leaves the staged file in place.
\<close>

theorem single_upload_answer_is_400:
  "upload_route sample_cfg (sample_env (Responded 200 (JObj [(''jobId'', JStr ''job_42'')])))
     sample_draws
     \<lparr> raw_files = [sample_part ''file'' ''pliego.pdf'' ''application/pdf'' (2 * 1024 * 1024)],
       raw_fields = no_fields \<rparr> []
   = \<lparr> res = \<lparr> status = 400,
               body = [(''success'', JBool False), (''error'', JStr ''No file found'')] \<rparr>,
       fs_after = [(''uploads/1700000000000-o82mvyr-pliego.pdf'',
                    \<lparr> stat_size = 2097152, mtimeMs = 1700000000000 \<rparr>)],
       relay_calls = [] \<rparr>"
  by (simp add: upload_route_def route_def multer_array_def fileFilter_def stage_part_def
      storage_filename_def sanitized_def replace_other_def name_char_def path_join_def
      string_of_nat.simps digit_char_def fs_write_def upload_handler_def
      sample_cfg_def sample_env_def sample_draws_def sample_part_def no_fields_def Let_def)

section \<open>The batch relay\<close>










end
